theory Spec2Isabelle
  imports Main "HOL-Library.Multiset" "HOL-Library.Log_Nat"
begin

section \<open>JavaScript values used by the program\<close>

subsection \<open>Numbers printed in decimal\<close>

text \<open>
  A template literal \<^verbatim>\<open>`${n}`\<close> converts the number \<open>n\<close> with \<open>Number::toString\<close>.
  For a non-negative integer below \<open>10^21\<close> that is its decimal numeral without
  leading zeros. Durations, counts and HTTP status codes are such integers; they are
  modelled as \<open>nat\<close> (JavaScript holds every integer below \<open>2^53\<close> exactly).
\<close>

definition digit_char :: "nat \<Rightarrow> char" where
  "digit_char n = char_of (48 + n)"

function show_nat :: "nat \<Rightarrow> string" where
  "show_nat n = (if n < 10 then [digit_char n] else show_nat (n div 10) @ [digit_char (n mod 10)])"
  by pat_completeness auto
termination
  by (relation "measure id") auto

declare show_nat.simps [simp del]

definition isDigit :: "char \<Rightarrow> bool" where
  "isDigit c = (48 \<le> (of_char c :: nat) \<and> (of_char c :: nat) \<le> 57)"

definition digit_val :: "char \<Rightarrow> nat" where
  "digit_val c = of_char c - 48"

text \<open>Reading a decimal numeral back: the inverse used by the round-trip properties.\<close>

definition parse_nat :: "string \<Rightarrow> nat option" where
  "parse_nat s = (if s \<noteq> [] \<and> list_all isDigit s
                  then Some (foldl (\<lambda>acc c. 10 * acc + digit_val c) 0 s) else None)"

section \<open>client.ts: formatDuration\<close>

text \<open>
  \<^verbatim>\<open>
  export function formatDuration(seconds: number): string {
    const hours = Math.floor(seconds / 3600);
    const minutes = Math.floor((seconds % 3600) / 60);
    const remainingSeconds = seconds % 60;
    if (hours > 0) { return `${hours}h ${minutes}m ${remainingSeconds}s`; }
    else if (minutes > 0) { return `${minutes}m ${remainingSeconds}s`; }
    else { return `${remainingSeconds}s`; }
  }
  \<close>
  On a non-negative integer \<open>Math.floor(a / b)\<close> is the integer quotient.
\<close>

definition formatDuration :: "nat \<Rightarrow> string" where
  "formatDuration seconds =
     (let hours = seconds div 3600;
          minutes = (seconds mod 3600) div 60;
          remainingSeconds = seconds mod 60
      in if hours > 0 then show_nat hours @ ''h '' @ show_nat minutes @ ''m '' @ show_nat remainingSeconds @ ''s''
         else if minutes > 0 then show_nat minutes @ ''m '' @ show_nat remainingSeconds @ ''s''
         else show_nat remainingSeconds @ ''s'')"

text \<open>
  Reading a formatted duration back, component by component: the text is split at
  spaces, every component is a decimal numeral followed by its unit letter, and the
  components are weighted by their units and added.
\<close>

fun split_on :: "char \<Rightarrow> string \<Rightarrow> string list" where
  "split_on sep [] = [[]]"
| "split_on sep (c # cs) =
     (if c = sep then [] # split_on sep cs
      else (case split_on sep cs of [] \<Rightarrow> [[c]] | w # ws \<Rightarrow> (c # w) # ws))"

definition unit_seconds :: "char \<Rightarrow> nat option" where
  "unit_seconds u = (if u = CHR ''h'' then Some 3600
                     else if u = CHR ''m'' then Some 60
                     else if u = CHR ''s'' then Some 1 else None)"

definition parse_component :: "string \<Rightarrow> (char \<times> nat) option" where
  "parse_component w =
     (if w = [] then None
      else (case parse_nat (butlast w) of
              None \<Rightarrow> None
            | Some n \<Rightarrow> Some (last w, n)))"

fun component_total :: "(char \<times> nat) option list \<Rightarrow> nat option" where
  "component_total [] = Some 0"
| "component_total (None # cs) = None"
| "component_total (Some (u, n) # cs) =
     (case (unit_seconds u, component_total cs) of
        (Some k, Some t) \<Rightarrow> Some (n * k + t)
      | _ \<Rightarrow> None)"

definition parseDuration :: "string \<Rightarrow> nat option" where
  "parseDuration s = component_total (map parse_component (split_on CHR '' '' s))"

section \<open>JSON values and the response envelope (types.ts)\<close>

text \<open>
  The payloads handed to \<open>JSON.stringify(data, null, 2)\<close> are built from objects,
  arrays, strings, booleans, \<open>null\<close> and non-negative integers. A property whose
  value is \<open>undefined\<close> is left out by \<open>JSON.stringify\<close>; the model leaves it
  out when the object is built.
\<close>

datatype json =
    JNull
  | JBool bool
  | JNum nat
  | JStr string
  | JArr "json list"
  | JObj "(string \<times> json) list"

definition nl :: string where
  "nl = [CHR 0x0A]"

definition hex_char :: "nat \<Rightarrow> char" where
  "hex_char n = (if n < 10 then char_of (48 + n) else char_of (87 + n))"

definition json_escape :: "char \<Rightarrow> string" where
  "json_escape c =
     (if c = CHR 0x22 then [CHR 0x5C, CHR 0x22]
      else if c = CHR 0x5C then [CHR 0x5C, CHR 0x5C]
      else if c = CHR 0x08 then [CHR 0x5C, CHR ''b'']
      else if c = CHR 0x0C then [CHR 0x5C, CHR ''f'']
      else if c = CHR 0x0A then [CHR 0x5C, CHR ''n'']
      else if c = CHR 0x0D then [CHR 0x5C, CHR ''r'']
      else if c = CHR 0x09 then [CHR 0x5C, CHR ''t'']
      else if (of_char c :: nat) < 32
        then [CHR 0x5C, CHR ''u'', CHR ''0'', CHR ''0'',
              hex_char (of_char c div 16), hex_char (of_char c mod 16)]
      else [c])"

definition json_quote :: "string \<Rightarrow> string" where
  "json_quote s = [CHR 0x22] @ concat (map json_escape s) @ [CHR 0x22]"

fun join :: "string \<Rightarrow> string list \<Rightarrow> string" where
  "join sep [] = []"
| "join sep [x] = x"
| "join sep (x # y # ys) = x @ sep @ join sep (y # ys)"

text \<open>\<open>stringify ind v\<close> is \<open>JSON.stringify(v, null, 2)\<close> at nesting indentation \<open>ind\<close>.\<close>

fun stringify :: "nat \<Rightarrow> json \<Rightarrow> string" where
  "stringify ind JNull = ''null''"
| "stringify ind (JBool b) = (if b then ''true'' else ''false'')"
| "stringify ind (JNum n) = show_nat n"
| "stringify ind (JStr s) = json_quote s"
| "stringify ind (JArr xs) =
     (if xs = [] then ''[]''
      else ''['' @ nl @ replicate (ind + 2) CHR '' ''
           @ join ('','' @ nl @ replicate (ind + 2) CHR '' '') (map (stringify (ind + 2)) xs)
           @ nl @ replicate ind CHR '' '' @ '']'')"
| "stringify ind (JObj kvs) =
     (if kvs = [] then ''{}''
      else ''{'' @ nl @ replicate (ind + 2) CHR '' ''
           @ join ('','' @ nl @ replicate (ind + 2) CHR '' '')
               (map (\<lambda>kv. json_quote (fst kv) @ '': '' @ stringify (ind + 2) (snd kv)) kvs)
           @ nl @ replicate ind CHR '' '' @ ''}'')"

definition JSON_stringify :: "json \<Rightarrow> string" where
  "JSON_stringify v = stringify 0 v"

text \<open>
  \<^verbatim>\<open>
  export function createSuccessResponse(message: string, data?: any): McpResponse {
    let text = `**Success**\n\n${message}`;
    if (data !== undefined) {
      text += `\n\n**Result:**\n\`\`\`json\n${JSON.stringify(data, null, 2)}\n\`\`\``;
    }
    return { content: [{ type: "text", text }] };
  }
  export function createErrorResponse(message: string, details?: any): McpResponse {
    let text = `**Error**\n\n${message}`;
    if (details !== undefined) {
      text += `\n\n**Details:**\n\`\`\`json\n${JSON.stringify(details, null, 2)}\n\`\`\``;
    }
    return { content: [{ type: "text", text, isError: true }] };
  }
  \<close>
  An absent \<open>isError\<close> is \<open>False\<close>.
\<close>

record McpTextContent =
  content_type :: string
  content_text :: string
  isError :: bool

record McpResponse =
  content :: "McpTextContent list"

definition fence :: string where
  "fence = replicate 3 (CHR 0x60)"

definition createSuccessResponse :: "string \<Rightarrow> json option \<Rightarrow> McpResponse" where
  "createSuccessResponse message data' =
     \<lparr>content = [\<lparr>content_type = ''text'',
        content_text = ''**Success**'' @ nl @ nl @ message @
          (case data' of
             None \<Rightarrow> []
           | Some d \<Rightarrow> nl @ nl @ ''**Result:**'' @ nl @ fence @ ''json'' @ nl
                       @ JSON_stringify d @ nl @ fence),
        isError = False\<rparr>]\<rparr>"

definition createErrorResponse :: "string \<Rightarrow> json option \<Rightarrow> McpResponse" where
  "createErrorResponse message details =
     \<lparr>content = [\<lparr>content_type = ''text'',
        content_text = ''**Error**'' @ nl @ nl @ message @
          (case details of
             None \<Rightarrow> []
           | Some d \<Rightarrow> nl @ nl @ ''**Details:**'' @ nl @ fence @ ''json'' @ nl
                       @ JSON_stringify d @ nl @ fence),
        isError = True\<rparr>]\<rparr>"


definition envelope_text :: "McpResponse \<Rightarrow> string" where
  "envelope_text r = concat (map content_text (content r))"

section \<open>client.ts: the API client\<close>

text \<open>
  A thrown JavaScript value is an \<open>Error\<close> object with its message, or any other
  value with its \<open>String(...)\<close> rendering; \<open>thrown_message\<close> is
  \<^verbatim>\<open>error instanceof Error ? error.message : String(error)\<close>.
\<close>

datatype js_thrown = JsError string | JsValue string

definition thrown_message :: "js_thrown \<Rightarrow> string" where
  "thrown_message e = (case e of JsError m \<Rightarrow> m | JsValue v \<Rightarrow> v)"

text \<open>
  What one \<open>fetch\<close> call can do: reject (a transport failure), or resolve to a
  response with a status and a body; \<open>response.json()\<close> on that body gives a
  payload or throws.
\<close>

datatype 'a json_body = JsonBody 'a | BadBody js_thrown

datatype 'a fetch_outcome = Rejected js_thrown | Responded nat "'a json_body"

record Request =
  req_url :: string
  req_method :: "string option"
  req_headers :: "(string \<times> string) list"
  req_body :: "string option"

record RequestInit =
  init_method :: "string option"
  init_body :: "string option"
  init_headers :: "(string \<times> string) list"

record 'a DailyApiResponse =
  success :: bool
  data :: "'a option"
  error :: "string option"
  statusCode :: "nat option"

record DailyApiConfig =
  cfg_apiKey :: string
  cfg_baseUrl :: "string option"

record DailyTimeTrackingClient =
  apiKey :: string
  baseUrl :: string

text \<open>The constructor: \<^verbatim>\<open>this.baseUrl = config.baseUrl || 'https://api.dailytimetracking.com'\<close>.\<close>

definition new_DailyTimeTrackingClient :: "DailyApiConfig \<Rightarrow> DailyTimeTrackingClient" where
  "new_DailyTimeTrackingClient config =
     \<lparr>apiKey = cfg_apiKey config,
      baseUrl = (case cfg_baseUrl config of
                   None \<Rightarrow> ''https://api.dailytimetracking.com''
                 | Some u \<Rightarrow> if u = [] then ''https://api.dailytimetracking.com'' else u)\<rparr>"

definition getHeaders :: "DailyTimeTrackingClient \<Rightarrow> (string \<times> string) list" where
  "getHeaders c =
     [(''Content-Type'', ''application/json''), (''Accept'', ''application/json''),
      (''API-Key'', apiKey c)]"

text \<open>An object spread \<^verbatim>\<open>{...a, ...b}\<close>: the keys of \<open>a\<close> in order, overwritten by \<open>b\<close>.\<close>

definition spread :: "(string \<times> string) list \<Rightarrow> (string \<times> string) list \<Rightarrow> (string \<times> string) list" where
  "spread a b =
     map (\<lambda>kv. (fst kv, case map_of b (fst kv) of None \<Rightarrow> snd kv | Some v \<Rightarrow> v)) a
     @ filter (\<lambda>kv. map_of a (fst kv) = None) b"

definition no_init :: RequestInit where
  "no_init = \<lparr>init_method = None, init_body = None, init_headers = []\<rparr>"

definition build_request :: "DailyTimeTrackingClient \<Rightarrow> string \<Rightarrow> RequestInit \<Rightarrow> Request" where
  "build_request c endpoint options =
     \<lparr>req_url = baseUrl c @ endpoint,
      req_method = init_method options,
      req_headers = spread (getHeaders c) (init_headers options),
      req_body = init_body options\<rparr>"

text \<open>
  \<open>makeRequest\<close> (client.ts, lines 44 to 105). The network is the parameter
  \<open>fetch\<close>; the result is paired with the requests sent, in order.
\<close>

definition network_error :: "js_thrown \<Rightarrow> 'a DailyApiResponse" where
  "network_error e =
     \<lparr>success = False, data = None,
      error = Some (''Network error: '' @ thrown_message e), statusCode = None\<rparr>"

definition makeRequest ::
  "DailyTimeTrackingClient \<Rightarrow> (Request \<Rightarrow> 'a fetch_outcome) \<Rightarrow> string \<Rightarrow> RequestInit
   \<Rightarrow> 'a DailyApiResponse \<times> Request list" where
  "makeRequest c fetch endpoint options =
     (let request = build_request c endpoint options in
      ((case fetch request of
         Rejected e \<Rightarrow> network_error e
       | Responded status body \<Rightarrow>
           if status = 200 then
             (case body of
                JsonBody d \<Rightarrow> \<lparr>success = True, data = Some d, error = None, statusCode = Some status\<rparr>
              | BadBody e \<Rightarrow> network_error e)
           else if status = 204 then
             \<lparr>success = True, data = None, error = None, statusCode = Some status\<rparr>
           else if status = 400 then
             \<lparr>success = False, data = None,
              error = Some ''Bad Request: The request was invalid or missing required data'',
              statusCode = Some status\<rparr>
           else if status = 401 then
             \<lparr>success = False, data = None,
              error = Some ''Unauthorized: Invalid or missing API key'',
              statusCode = Some status\<rparr>
           else if status = 500 then
             \<lparr>success = False, data = None,
              error = Some ''Internal Server Error: The server encountered an unexpected error'',
              statusCode = Some status\<rparr>
           else
             \<lparr>success = False, data = None,
              error = Some (''Unexpected response status: '' @ show_nat status),
              statusCode = Some status\<rparr>),
       [request]))"

text \<open>
  \<open>buildQueryString\<close>: the entries whose value is neither \<open>undefined\<close> nor
  \<open>null\<close> (here \<open>None\<close>), each value already converted with \<open>String(value)\<close>, are
  serialised by \<open>URLSearchParams\<close> (form URL encoding), with a leading \<open>?\<close> unless
  nothing is left.
\<close>

definition isAlnum :: "char \<Rightarrow> bool" where
  "isAlnum c =
     (let n = (of_char c :: nat)
      in (48 \<le> n \<and> n \<le> 57) \<or> (65 \<le> n \<and> n \<le> 90) \<or> (97 \<le> n \<and> n \<le> 122))"

definition HEX_char :: "nat \<Rightarrow> char" where
  "HEX_char n = (if n < 10 then char_of (48 + n) else char_of (55 + n))"

definition form_encode :: "string \<Rightarrow> string" where
  "form_encode s =
     concat (map (\<lambda>c. if isAlnum c \<or> c \<in> set ''*-._'' then [c]
                        else if c = CHR '' '' then ''+''
                        else [CHR ''%'', HEX_char (of_char c div 16), HEX_char (of_char c mod 16)]) s)"

definition String_bool :: "bool \<Rightarrow> string" where
  "String_bool b = (if b then ''true'' else ''false'')"

definition buildQueryString :: "(string \<times> string option) list \<Rightarrow> string" where
  "buildQueryString params =
     (let searchParams = concat (map (\<lambda>kv. case snd kv of None \<Rightarrow> [] | Some v \<Rightarrow> [(fst kv, v)]) params);
          queryString = join ''&'' (map (\<lambda>kv. form_encode (fst kv) @ ''='' @ form_encode (snd kv)) searchParams)
      in if queryString = [] then [] else ''?'' @ queryString)"

text \<open>
  The payload types of \<open>daily-api/types.ts\<close>.

  Modelled from the spec: the file \<open>daily-api/types.ts\<close> that declares
  \<open>DailyUser\<close>, \<open>DailyActivity\<close>, \<open>DailySummaryActivity\<close>, \<open>DailyTimesheetDay\<close> and
  \<open>CreateActivityRequest\<close> is missing; the fields are those of the spec's data model,
  under the names the handlers read (\<open>user.dataRetention\<close>, \<open>a.archived\<close>,
  \<open>item.duration\<close>, \<open>day.activities\<close>). A \<open>group\<close> that is \<open>null\<close> or absent is
  \<open>None\<close>.
\<close>

record DailyUser =
  dataRetention :: nat
  lastSynced :: "string option"

record DailyActivity =
  activity_id :: "nat option"
  activity_name :: string
  activity_group :: "string option"
  lastUsed :: "string option"
  archived :: bool

record DailySummaryActivity =
  activity :: string
  group :: "string option"
  duration :: nat

record DailyTimesheetDay =
  date :: string
  activities :: "DailySummaryActivity list"

datatype 'a nullable = Absent | Null | Present 'a

record CreateActivityRequest =
  new_name :: string
  new_group :: "string nullable"

text \<open>\<open>JSON.stringify(v)\<close> without indentation, for the request body.\<close>

fun stringify_compact :: "json \<Rightarrow> string" where
  "stringify_compact JNull = ''null''"
| "stringify_compact (JBool b) = (if b then ''true'' else ''false'')"
| "stringify_compact (JNum n) = show_nat n"
| "stringify_compact (JStr s) = json_quote s"
| "stringify_compact (JArr xs) = ''['' @ join '','' (map stringify_compact xs) @ '']''"
| "stringify_compact (JObj kvs) =
     ''{'' @ join '','' (map (\<lambda>kv. json_quote (fst kv) @ '':'' @ stringify_compact (snd kv)) kvs)
     @ ''}''"

definition CreateActivityRequest_json :: "CreateActivityRequest \<Rightarrow> json" where
  "CreateActivityRequest_json r =
     JObj ([(''name'', JStr (new_name r))] @
           (case new_group r of
              Absent \<Rightarrow> []
            | Null \<Rightarrow> [(''group'', JNull)]
            | Present g \<Rightarrow> [(''group'', JStr g)]))"

text \<open>The five calls of the client (client.ts, lines 124 to 164).\<close>

definition getUser ::
  "DailyTimeTrackingClient \<Rightarrow> (Request \<Rightarrow> DailyUser fetch_outcome)
   \<Rightarrow> DailyUser DailyApiResponse \<times> Request list" where
  "getUser c fetch = makeRequest c fetch ''/user'' no_init"

definition getActivities ::
  "DailyTimeTrackingClient \<Rightarrow> (Request \<Rightarrow> DailyActivity list fetch_outcome) \<Rightarrow> bool option
   \<Rightarrow> DailyActivity list DailyApiResponse \<times> Request list" where
  "getActivities c fetch includeArchivedActivities =
     (let queryString = buildQueryString
            [(''includeArchivedActivities'', map_option String_bool includeArchivedActivities)]
      in makeRequest c fetch (''/activities'' @ queryString) no_init)"

definition getSummary ::
  "DailyTimeTrackingClient \<Rightarrow> (Request \<Rightarrow> DailySummaryActivity list fetch_outcome)
   \<Rightarrow> string \<Rightarrow> string \<Rightarrow> bool option
   \<Rightarrow> DailySummaryActivity list DailyApiResponse \<times> Request list" where
  "getSummary c fetch start end' includeArchivedActivities =
     (let queryString = buildQueryString
            [(''start'', Some start), (''end'', Some end'),
             (''includeArchivedActivities'', map_option String_bool includeArchivedActivities)]
      in makeRequest c fetch (''/summary'' @ queryString) no_init)"

definition getTimesheet ::
  "DailyTimeTrackingClient \<Rightarrow> (Request \<Rightarrow> DailyTimesheetDay list fetch_outcome)
   \<Rightarrow> string \<Rightarrow> string \<Rightarrow> bool option
   \<Rightarrow> DailyTimesheetDay list DailyApiResponse \<times> Request list" where
  "getTimesheet c fetch start end' includeArchivedActivities =
     (let queryString = buildQueryString
            [(''start'', Some start), (''end'', Some end'),
             (''includeArchivedActivities'', map_option String_bool includeArchivedActivities)]
      in makeRequest c fetch (''/timesheet'' @ queryString) no_init)"

definition createActivities ::
  "DailyTimeTrackingClient \<Rightarrow> (Request \<Rightarrow> DailyActivity list fetch_outcome)
   \<Rightarrow> CreateActivityRequest list \<Rightarrow> bool option
   \<Rightarrow> DailyActivity list DailyApiResponse \<times> Request list" where
  "createActivities c fetch new_activities archiveExistingActivities =
     (let queryString = buildQueryString
            [(''archiveExistingActivities'', map_option String_bool archiveExistingActivities)]
      in makeRequest c fetch (''/activities'' @ queryString)
           \<lparr>init_method = Some ''POST'',
            init_body = Some (stringify_compact (JArr (map CreateActivityRequest_json new_activities))),
            init_headers = []\<rparr>)"

section \<open>The Date object of the JavaScript runtime\<close>

text \<open>
  Time values are milliseconds since 1970-01-01T00:00:00Z (\<open>int\<close>); \<open>NaN\<close>, the
  time value of an invalid Date, is \<open>None\<close>. The functions below are the abstract
  operations of ECMA-262 (section "Time Values and Time Range" and following), under
  their names there. \<open>YearFromTime(t)\<close> is specified as the largest \<open>y\<close> with
  \<open>TimeFromYear(y) \<le> t\<close>; it is computed by a search, and \<open>YearFromDay_bounds\<close>
  below shows that the search finds exactly that year.
\<close>

definition msPerDay :: int where
  "msPerDay = 86400000"

definition Day :: "int \<Rightarrow> int" where
  "Day t = t div msPerDay"

definition TimeWithinDay :: "int \<Rightarrow> int" where
  "TimeWithinDay t = t mod msPerDay"

definition isLeapYear :: "int \<Rightarrow> bool" where
  "isLeapYear y = (y mod 4 = 0 \<and> (y mod 100 \<noteq> 0 \<or> y mod 400 = 0))"

definition DaysInYear :: "int \<Rightarrow> int" where
  "DaysInYear y = (if isLeapYear y then 366 else 365)"

definition DayFromYear :: "int \<Rightarrow> int" where
  "DayFromYear y =
     365 * (y - 1970) + (y - 1969) div 4 - (y - 1901) div 100 + (y - 1601) div 400"

lemma div_step:
  fixes a n :: int
  assumes "0 < n"
  shows "(a + 1) div n = (if (a + 1) mod n = 0 then a div n + 1 else a div n)"
proof (cases "(a + 1) mod n = 0")
  case True
  then obtain k where k: "a + 1 = n * k"
    by (auto simp: mod_eq_0_iff_dvd)
  then have a: "a = n * (k - 1) + (n - 1)"
    by (simp add: algebra_simps)
  have "a div n = k - 1"
    by (subst a) (use assms in \<open>simp add: div_pos_pos_trivial\<close>)
  moreover have "(a + 1) div n = k"
    using k assms by simp
  ultimately show ?thesis
    using True by simp
next
  case False
  define r where "r = (a + 1) mod n"
  have "0 \<le> r" "r < n"
    using assms by (simp_all add: r_def)
  with False have r: "0 < r" "r < n"
    by (simp_all add: r_def less_le)
  have "a + 1 = n * ((a + 1) div n) + r"
    by (simp add: r_def)
  then have a: "a = n * ((a + 1) div n) + (r - 1)"
    by simp
  have "a div n = (a + 1) div n"
    by (subst a) (use r assms in \<open>simp add: div_pos_pos_trivial\<close>)
  then show ?thesis
    using False by simp
qed

lemma mod_shift_4: "(y - 1968) mod 4 = y mod (4::int)"
proof -
  have "y - 1968 = y + 4 * (- 492)" by simp
  then show ?thesis by (metis mod_mult_self2)
qed

lemma mod_shift_100: "(y - 1900) mod 100 = y mod (100::int)"
proof -
  have "y - 1900 = y + 100 * (- 19)" by simp
  then show ?thesis by (metis mod_mult_self2)
qed

lemma mod_shift_400: "(y - 1600) mod 400 = y mod (400::int)"
proof -
  have "y - 1600 = y + 400 * (- 4)" by simp
  then show ?thesis by (metis mod_mult_self2)
qed

lemma mod_dvd_trans:
  fixes y :: int
  assumes "y mod b = 0" and "a dvd b"
  shows "y mod a = 0"
  using assms by (meson dvd_trans mod_eq_0_iff_dvd)

lemma DayFromYear_Suc: "DayFromYear (y + 1) = DayFromYear y + DaysInYear y"
proof -
  have a: "(y + 1 - 1969) div 4
           = (if y mod 4 = 0 then (y - 1969) div 4 + 1 else (y - 1969) div 4)"
    using div_step [of 4 "y - 1969"] mod_shift_4 [of y] by (simp add: algebra_simps)
  have b: "(y + 1 - 1901) div 100
           = (if y mod 100 = 0 then (y - 1901) div 100 + 1 else (y - 1901) div 100)"
    using div_step [of 100 "y - 1901"] mod_shift_100 [of y] by (simp add: algebra_simps)
  have c: "(y + 1 - 1601) div 400
           = (if y mod 400 = 0 then (y - 1601) div 400 + 1 else (y - 1601) div 400)"
    using div_step [of 400 "y - 1601"] mod_shift_400 [of y] by (simp add: algebra_simps)
  have "y mod 400 = 0 \<Longrightarrow> y mod 100 = 0" and "y mod 100 = 0 \<Longrightarrow> y mod 4 = 0"
    by (erule mod_dvd_trans, simp)+
  then show ?thesis
    unfolding DayFromYear_def DaysInYear_def isLeapYear_def a b c
    by (auto simp: algebra_simps)
qed

lemma DayFromYear_less_Suc: "DayFromYear y < DayFromYear (y + 1)"
  by (simp add: DayFromYear_Suc DaysInYear_def)

lemma DayFromYear_less: "DayFromYear (y - 1) < DayFromYear y"
  using DayFromYear_less_Suc [of "y - 1"] by simp

function year_up :: "int \<Rightarrow> int \<Rightarrow> int" where
  "year_up y d = (if DayFromYear (y + 1) \<le> d then year_up (y + 1) d else y)"
  by pat_completeness auto
termination
proof (relation "measure (\<lambda>(y, d). nat (d + 1 - DayFromYear (y + 1)))")
  show "wf (measure (\<lambda>(y, d). nat (d + 1 - DayFromYear (y + 1))))"
    by simp
next
  fix y d :: int
  assume "DayFromYear (y + 1) \<le> d"
  moreover have "DayFromYear (y + 1) < DayFromYear (y + 1 + 1)"
    by (rule DayFromYear_less_Suc)
  ultimately show "((y + 1, d), y, d) \<in> measure (\<lambda>(y, d). nat (d + 1 - DayFromYear (y + 1)))"
    by simp
qed

function year_down :: "int \<Rightarrow> int \<Rightarrow> int" where
  "year_down y d = (if d < DayFromYear y then year_down (y - 1) d else y)"
  by pat_completeness auto
termination
proof (relation "measure (\<lambda>(y, d). nat (DayFromYear y - d))")
  show "wf (measure (\<lambda>(y, d). nat (DayFromYear y - d)))"
    by simp
next
  fix y d :: int
  assume "d < DayFromYear y"
  then show "((y - 1, d), y, d) \<in> measure (\<lambda>(y, d). nat (DayFromYear y - d))"
    using DayFromYear_less [of y] by simp
qed

declare year_up.simps [simp del] year_down.simps [simp del]

definition YearFromDay :: "int \<Rightarrow> int" where
  "YearFromDay d = year_down (year_up 1970 d) d"

definition DayWithinYear :: "int \<Rightarrow> int" where
  "DayWithinYear d = d - DayFromYear (YearFromDay d)"

definition InLeapYear :: "int \<Rightarrow> int" where
  "InLeapYear d = (if isLeapYear (YearFromDay d) then 1 else 0)"

text \<open>The month and the day of the month, from the day within the year (ECMA-262's tables).\<close>

definition MonthInYear :: "int \<Rightarrow> int \<Rightarrow> int" where
  "MonthInYear w l =
     (if w < 31 then 0
      else if w < 59 + l then 1
      else if w < 90 + l then 2
      else if w < 120 + l then 3
      else if w < 151 + l then 4
      else if w < 181 + l then 5
      else if w < 212 + l then 6
      else if w < 243 + l then 7
      else if w < 273 + l then 8
      else if w < 304 + l then 9
      else if w < 334 + l then 10
      else 11)"

definition DateInYear :: "int \<Rightarrow> int \<Rightarrow> int" where
  "DateInYear w l =
     (let m = MonthInYear w l
      in if m = 0 then w + 1
         else if m = 1 then w - 30
         else if m = 2 then w - 58 - l
         else if m = 3 then w - 89 - l
         else if m = 4 then w - 119 - l
         else if m = 5 then w - 150 - l
         else if m = 6 then w - 180 - l
         else if m = 7 then w - 211 - l
         else if m = 8 then w - 242 - l
         else if m = 9 then w - 272 - l
         else if m = 10 then w - 303 - l
         else w - 333 - l)"

definition MonthFromDay :: "int \<Rightarrow> int" where
  "MonthFromDay d = MonthInYear (DayWithinYear d) (InLeapYear d)"

definition DateFromDay :: "int \<Rightarrow> int" where
  "DateFromDay d = DateInYear (DayWithinYear d) (InLeapYear d)"

definition YearFromTime :: "int \<Rightarrow> int" where
  "YearFromTime t = YearFromDay (Day t)"

definition MonthFromTime :: "int \<Rightarrow> int" where
  "MonthFromTime t = MonthFromDay (Day t)"

definition DateFromTime :: "int \<Rightarrow> int" where
  "DateFromTime t = DateFromDay (Day t)"

definition WeekDay :: "int \<Rightarrow> int" where
  "WeekDay t = (Day t + 4) mod 7"

definition HourFromTime :: "int \<Rightarrow> int" where
  "HourFromTime t = (t div 3600000) mod 24"

definition MinFromTime :: "int \<Rightarrow> int" where
  "MinFromTime t = (t div 60000) mod 60"

definition SecFromTime :: "int \<Rightarrow> int" where
  "SecFromTime t = (t div 1000) mod 60"

definition msFromTime :: "int \<Rightarrow> int" where
  "msFromTime t = t mod 1000"

text \<open>
  \<open>MakeDay(year, month, date)\<close>: the day number of the first day of month
  \<open>month mod 12\<close> of year \<open>year + month div 12\<close>, plus \<open>date - 1\<close>; a date outside the
  month runs over into the neighbouring months.
\<close>

definition DaysBeforeMonth :: "int \<Rightarrow> int \<Rightarrow> int" where
  "DaysBeforeMonth mn l =
     (if mn = 0 then 0
      else if mn = 1 then 31
      else if mn = 2 then 59 + l
      else if mn = 3 then 90 + l
      else if mn = 4 then 120 + l
      else if mn = 5 then 151 + l
      else if mn = 6 then 181 + l
      else if mn = 7 then 212 + l
      else if mn = 8 then 243 + l
      else if mn = 9 then 273 + l
      else if mn = 10 then 304 + l
      else 334 + l)"

definition MakeDay :: "int \<Rightarrow> int \<Rightarrow> int \<Rightarrow> int" where
  "MakeDay year month dt =
     (let ym = year + month div 12; mn = month mod 12
      in DayFromYear ym + DaysBeforeMonth mn (if isLeapYear ym then 1 else 0) + dt - 1)"

definition MakeTime :: "int \<Rightarrow> int \<Rightarrow> int \<Rightarrow> int \<Rightarrow> int" where
  "MakeTime hour minute sec ms = hour * 3600000 + minute * 60000 + sec * 1000 + ms"

definition MakeDate :: "int \<Rightarrow> int \<Rightarrow> int" where
  "MakeDate day time = day * msPerDay + time"

definition TimeClip :: "int \<Rightarrow> int option" where
  "TimeClip t = (if \<bar>t\<bar> > 8640000000000000 then None else Some t)"

text \<open>
  Local time. \<open>tza\<close> is the offset of the local time zone in milliseconds
  (\<open>LocalTZA\<close>, taken as constant over the days in question). The methods
  \<open>getDate\<close>, \<open>getDay\<close>, \<open>getMonth\<close>, \<open>getFullYear\<close> and \<open>setDate\<close> read and write
  local time; \<open>toISOString\<close> writes UTC. The Workers runtime this server is written
  for has \<open>tza = 0\<close>.
\<close>

definition LocalTime :: "int \<Rightarrow> int \<Rightarrow> int" where
  "LocalTime tza t = t + tza"

definition UTC :: "int \<Rightarrow> int \<Rightarrow> int" where
  "UTC tza t = t - tza"

definition getDate :: "int \<Rightarrow> int \<Rightarrow> int" where
  "getDate tza t = DateFromTime (LocalTime tza t)"

definition getDay :: "int \<Rightarrow> int \<Rightarrow> int" where
  "getDay tza t = WeekDay (LocalTime tza t)"

definition getMonth :: "int \<Rightarrow> int \<Rightarrow> int" where
  "getMonth tza t = MonthFromTime (LocalTime tza t)"

definition getFullYear :: "int \<Rightarrow> int \<Rightarrow> int" where
  "getFullYear tza t = YearFromTime (LocalTime tza t)"

text \<open>\<open>date.setDate(dt)\<close> on a valid Date with time value \<open>t\<close>: the new time value.\<close>

definition setDate :: "int \<Rightarrow> int \<Rightarrow> int \<Rightarrow> int option" where
  "setDate tza t dt =
     (let lt = LocalTime tza t;
          newDate = MakeDate (MakeDay (YearFromTime lt) (MonthFromTime lt) dt) (TimeWithinDay lt)
      in TimeClip (UTC tza newDate))"

text \<open>
  \<open>new Date(year, month, date)\<close>: local midnight of that day. A year from 0 to 99
  stands for 1900 + year.
\<close>

definition new_Date_ymd :: "int \<Rightarrow> int \<Rightarrow> int \<Rightarrow> int \<Rightarrow> int option" where
  "new_Date_ymd tza year month dt =
     (let yr = (if 0 \<le> year \<and> year \<le> 99 then 1900 + year else year)
      in TimeClip (UTC tza (MakeDate (MakeDay yr month dt) (MakeTime 0 0 0 0))))"

text \<open>
  \<open>toISOString\<close>: \<open>YYYY-MM-DDTHH:mm:ss.sssZ\<close> in UTC, the year with four digits
  from 0 to 9999 and with a sign and six digits otherwise. On an invalid Date it
  throws a \<open>RangeError\<close>.
\<close>

definition pad :: "nat \<Rightarrow> nat \<Rightarrow> string" where
  "pad w n = replicate (w - length (show_nat n)) CHR ''0'' @ show_nat n"

definition iso_year :: "int \<Rightarrow> string" where
  "iso_year y =
     (if 0 \<le> y \<and> y \<le> 9999 then pad 4 (nat y)
      else if y < 0 then ''-'' @ pad 6 (nat (- y))
      else ''+'' @ pad 6 (nat y))"

definition toISOString :: "int option \<Rightarrow> js_thrown + string" where
  "toISOString tv =
     (case tv of
        None \<Rightarrow> Inl (JsError ''Invalid time value'')
      | Some t \<Rightarrow>
          Inr (iso_year (YearFromTime t) @ ''-'' @ pad 2 (nat (MonthFromTime t + 1)) @ ''-''
               @ pad 2 (nat (DateFromTime t)) @ ''T'' @ pad 2 (nat (HourFromTime t)) @ '':''
               @ pad 2 (nat (MinFromTime t)) @ '':'' @ pad 2 (nat (SecFromTime t)) @ ''.''
               @ pad 3 (nat (msFromTime t)) @ ''Z''))"

text \<open>\<^verbatim>\<open>date.toISOString().split('T')[0]\<close>\<close>

definition iso_date_part :: "int option \<Rightarrow> js_thrown + string" where
  "iso_date_part tv =
     (case toISOString tv of
        Inl e \<Rightarrow> Inl e
      | Inr s \<Rightarrow> Inr (hd (split_on CHR ''T'' s)))"

section \<open>client.ts: date utilities\<close>

text \<open>
  \<^verbatim>\<open>
  export function getTodayISO(): string {
    return new Date().toISOString().split('T')[0];
  }
  export function getDaysAgoISO(days: number): string {
    const date = new Date();
    date.setDate(date.getDate() - days);
    return date.toISOString().split('T')[0];
  }
  \<close>
  \<open>new Date()\<close> reads the clock; the reading is the parameter \<open>now\<close>.
\<close>

definition getTodayISO :: "int \<Rightarrow> js_thrown + string" where
  "getTodayISO now = iso_date_part (Some now)"

definition getDaysAgoISO :: "int \<Rightarrow> int \<Rightarrow> int \<Rightarrow> js_thrown + string" where
  "getDaysAgoISO tza now days =
     (let date = setDate tza now (getDate tza now - days)
      in iso_date_part date)"

text \<open>
  A regular expression made of single-character atoms between \<open>^\<close> and \<open>$\<close>:
  \<open>\d\<close> is an ASCII digit, a literal is itself, and \<open>$\<close> (no \<open>m\<close> flag) is the
  end of the input.
\<close>

datatype regex_atom = Digit | Lit char

fun atom_matches :: "regex_atom \<Rightarrow> char \<Rightarrow> bool" where
  "atom_matches Digit c = isDigit c"
| "atom_matches (Lit l) c = (c = l)"

fun regex_test :: "regex_atom list \<Rightarrow> string \<Rightarrow> bool" where
  "regex_test [] [] = True"
| "regex_test (a # as) (c # cs) = (atom_matches a c \<and> regex_test as cs)"
| "regex_test [] (c # cs) = False"
| "regex_test (a # as) [] = False"

text \<open>\<^verbatim>\<open>/^\d{4}-\d{2}-\d{2}$/\<close>\<close>

definition iso8601Regex :: "regex_atom list" where
  "iso8601Regex =
     [Digit, Digit, Digit, Digit, Lit CHR ''-'', Digit, Digit, Lit CHR ''-'', Digit, Digit]"

text \<open>
  \<open>Date.parse\<close> on the layout \<open>YYYY-MM-DDTHH:mm:ss.sssZ\<close>, as the runtime's engine
  (V8) reads it: the month must be 1 to 12 and the day 1 to 31, whatever the month
  (\<open>DayComposer::IsMonth\<close>, \<open>IsDay\<close>), the hour at most 24 (24 only as 24:00:00.000),
  minute and second at most 59; the time value is then made with \<open>MakeDay\<close>, which
  runs a day past the end of its month over into the next month. The result \<open>None\<close>
  is \<open>NaN\<close>. Other layouts are not modelled (\<open>None\<close>); \<open>isValidISODate\<close> hands
  over this layout only.
\<close>

definition isoDateTimeLayout :: "regex_atom list" where
  "isoDateTimeLayout =
     iso8601Regex @
     [Lit CHR ''T'', Digit, Digit, Lit CHR '':'', Digit, Digit, Lit CHR '':'', Digit, Digit,
      Lit CHR ''.'', Digit, Digit, Digit, Lit CHR ''Z'']"

definition num_at :: "string \<Rightarrow> nat \<Rightarrow> nat \<Rightarrow> int" where
  "num_at s i n = int (foldl (\<lambda>acc c. 10 * acc + digit_val c) 0 (take n (drop i s)))"

definition Date_parse :: "string \<Rightarrow> int option" where
  "Date_parse s =
     (if \<not> regex_test isoDateTimeLayout s then None
      else
        (let year = num_at s 0 4; month = num_at s 5 2; day = num_at s 8 2;
             hour = num_at s 11 2; minute = num_at s 14 2; second = num_at s 17 2;
             ms = num_at s 20 3
         in if \<not> (1 \<le> month \<and> month \<le> 12) then None
            else if \<not> (1 \<le> day \<and> day \<le> 31) then None
            else if \<not> (hour \<le> 24 \<and> minute \<le> 59 \<and> second \<le> 59) then None
            else if hour = 24 \<and> (minute \<noteq> 0 \<or> second \<noteq> 0 \<or> ms \<noteq> 0) then None
            else TimeClip (MakeDate (MakeDay year (month - 1) day)
                                    (MakeTime hour minute second ms))))"

text \<open>
  \<^verbatim>\<open>
  export function isValidISODate(dateString: string): boolean {
    const iso8601Regex = /^\d{4}-\d{2}-\d{2}$/;
    if (!iso8601Regex.test(dateString)) { return false; }
    const date = new Date(dateString + 'T00:00:00.000Z');
    return !isNaN(date.getTime());
  }
  \<close>
\<close>

definition isValidISODate :: "string \<Rightarrow> bool" where
  "isValidISODate dateString =
     (if \<not> regex_test iso8601Regex dateString then False
      else (let date = Date_parse (dateString @ ''T00:00:00.000Z'')
            in date \<noteq> None))"

text \<open>
  What the spec calls a real calendar date: a month from 1 to 12 and a day from 1 to
  the length of that month in that year.
\<close>

definition DaysInMonth :: "int \<Rightarrow> int \<Rightarrow> int" where
  "DaysInMonth y m =
     (if m = 2 then (if isLeapYear y then 29 else 28)
      else if m = 4 \<or> m = 6 \<or> m = 9 \<or> m = 11 then 30
      else 31)"

definition real_calendar_date :: "string \<Rightarrow> bool" where
  "real_calendar_date s =
     (1 \<le> num_at s 5 2 \<and> num_at s 5 2 \<le> 12 \<and> 1 \<le> num_at s 8 2
      \<and> num_at s 8 2 \<le> DaysInMonth (num_at s 0 4) (num_at s 5 2))"

text \<open>
  The text \<open>YYYY-MM-DD\<close> of a day number in the UTC calendar: what the spec means by
  an emitted date. (For a year outside 0 to 9999 the year takes a sign and six
  digits, as in \<open>toISOString\<close>.)
\<close>

definition utc_date_string :: "int \<Rightarrow> string" where
  "utc_date_string d =
     iso_year (YearFromDay d) @ ''-'' @ pad 2 (nat (MonthFromDay d + 1)) @ ''-''
     @ pad 2 (nat (DateFromDay d))"

section \<open>JavaScript numbers that are not integers\<close>








section \<open>daily-tools.ts: the tool handlers\<close>

text \<open>
  \<^verbatim>\<open>
  const ALLOWED_USERNAMES = new Set<string>([ 'coleam00' ]);
  \<close>
  \<open>Set.prototype.has\<close> compares strings by equality of their characters.
\<close>

definition ALLOWED_USERNAMES :: "string set" where
  "ALLOWED_USERNAMES = {''coleam00''}"

record Props =
  login :: string
  name :: string
  email :: string
  accessToken :: string

record Env =
  DAILY_API_KEY :: "string option"

text \<open>
  \<^verbatim>\<open>
  const getDailyClient = () => {
    if (!(env as any).DAILY_API_KEY) {
      throw new Error("DAILY_API_KEY environment variable is required");
    }
    return new DailyTimeTrackingClient({ apiKey: (env as any).DAILY_API_KEY });
  };
  \<close>
  A missing key and the empty string are both falsy.
\<close>

definition getDailyClient :: "Env \<Rightarrow> js_thrown + DailyTimeTrackingClient" where
  "getDailyClient env =
     (case DAILY_API_KEY env of
        None \<Rightarrow> Inl (JsError ''DAILY_API_KEY environment variable is required'')
      | Some k \<Rightarrow>
          if k = [] then Inl (JsError ''DAILY_API_KEY environment variable is required'')
          else Inr (new_DailyTimeTrackingClient \<lparr>cfg_apiKey = k, cfg_baseUrl = None\<rparr>))"

text \<open>\<^verbatim>\<open>a || b\<close> for a string \<open>a\<close> that may be \<open>null\<close> or absent: \<open>b\<close> when \<open>a\<close> is falsy.\<close>

definition or_default :: "string option \<Rightarrow> string \<Rightarrow> string" where
  "or_default a b = (case a of None \<Rightarrow> b | Some s \<Rightarrow> if s = [] then b else s)"

text \<open>The condition of \<^verbatim>\<open>a ? b : c\<close> for such a string: false when \<open>a\<close> is falsy.\<close>

definition truthy :: "string option \<Rightarrow> bool" where
  "truthy a = (case a of None \<Rightarrow> False | Some s \<Rightarrow> s \<noteq> [])"

text \<open>\<^verbatim>\<open>${response.error}\<close> in a template literal.\<close>

definition template_string :: "string option \<Rightarrow> string" where
  "template_string s = (case s of None \<Rightarrow> ''undefined'' | Some v \<Rightarrow> v)"

text \<open>\<^verbatim>\<open>{ statusCode: response.statusCode }\<close>\<close>

definition statusCode_details :: "'a DailyApiResponse \<Rightarrow> json" where
  "statusCode_details response =
     JObj (case statusCode response of None \<Rightarrow> [] | Some c \<Rightarrow> [(''statusCode'', JNum c)])"

text \<open>
  Reading a property of \<open>response.data!\<close> when the data is \<open>undefined\<close> (a 204
  answer) throws a \<open>TypeError\<close>.
\<close>

definition undefined_property :: "string \<Rightarrow> js_thrown" where
  "undefined_property p =
     JsError (''Cannot read properties of undefined (reading '' @ [CHR 0x27] @ p @ [CHR 0x27] @ '')'')"

subsection \<open>Tool 1: getDailyUser\<close>

definition getDailyUser_handler ::
  "Env \<Rightarrow> (Request \<Rightarrow> DailyUser fetch_outcome) \<Rightarrow> McpResponse \<times> Request list" where
  "getDailyUser_handler env fetch =
     (case getDailyClient env of
        Inl e \<Rightarrow>
          (createErrorResponse (''Error retrieving user information: '' @ thrown_message e) None, [])
      | Inr client \<Rightarrow>
          (let (response, calls) = getUser client fetch
           in if \<not> success response then
                (createErrorResponse
                   (''Failed to retrieve user information: '' @ template_string (error response))
                   (Some (statusCode_details response)), calls)
              else
                (case data response of
                   None \<Rightarrow>
                     (createErrorResponse
                        (''Error retrieving user information: ''
                         @ thrown_message (undefined_property ''dataRetention'')) None, calls)
                 | Some user \<Rightarrow>
                     (createSuccessResponse ''User information retrieved successfully''
                        (Some (JObj
                           [(''dataRetention'', JStr (show_nat (dataRetention user) @ '' days'')),
                            (''lastSynced'', JStr (or_default (lastSynced user) ''Never synchronized'')),
                            (''syncStatus'',
                             JStr (if truthy (lastSynced user) then ''Active''
                                   else ''No data synced yet''))])),
                      calls))))"

subsection \<open>Tool 2: getDailyActivities\<close>

text \<open>
  The accumulator of the grouping is a plain object \<^verbatim>\<open>{}\<close>. Its own properties
  are an association list in the order of their creation. Reading \<^verbatim>\<open>acc[groupName]\<close>
  finds an own property, or else a property inherited from \<open>Object.prototype\<close>
  (a function, or the prototype itself for \<open>__proto__\<close>: truthy, and without a
  \<open>push\<close> method), or else \<open>undefined\<close>.
\<close>

definition Object_prototype_keys :: "string list" where
  "Object_prototype_keys =
     [''constructor'', ''__defineGetter__'', ''__defineSetter__'', ''hasOwnProperty'',
      ''__lookupGetter__'', ''__lookupSetter__'', ''isPrototypeOf'', ''propertyIsEnumerable'',
      ''toString'', ''valueOf'', ''__proto__'', ''toLocaleString'']"

datatype 'v js_property = Undefined | Own 'v | Inherited

definition js_get :: "(string \<times> 'v) list \<Rightarrow> string \<Rightarrow> 'v js_property" where
  "js_get obj k =
     (case map_of obj k of
        Some v \<Rightarrow> Own v
      | None \<Rightarrow> if k \<in> set Object_prototype_keys then Inherited else Undefined)"

text \<open>
  \<^verbatim>\<open>
  (acc, activity) => {
    const groupName = activity.group || 'Ungrouped';
    if (!acc[groupName]) { acc[groupName] = []; }
    acc[groupName].push(activity);
    return acc;
  }
  \<close>
  An array is truthy, also when empty. Calling the missing \<open>push\<close> of an inherited
  property throws a \<open>TypeError\<close>.
\<close>

definition group_step ::
  "(string \<times> DailyActivity list) list \<Rightarrow> DailyActivity
   \<Rightarrow> js_thrown + (string \<times> DailyActivity list) list" where
  "group_step acc a =
     (let groupName = or_default (activity_group a) ''Ungrouped''
      in case js_get acc groupName of
           Undefined \<Rightarrow> Inr (acc @ [(groupName, [a])])
         | Own arr \<Rightarrow>
             Inr (map (\<lambda>kv. if fst kv = groupName then (fst kv, snd kv @ [a]) else kv) acc)
         | Inherited \<Rightarrow> Inl (JsError ''acc[groupName].push is not a function''))"

fun reduce_groups ::
  "(string \<times> DailyActivity list) list \<Rightarrow> DailyActivity list
   \<Rightarrow> js_thrown + (string \<times> DailyActivity list) list" where
  "reduce_groups acc [] = Inr acc"
| "reduce_groups acc (a # as) =
     (case group_step acc a of
        Inl e \<Rightarrow> Inl e
      | Inr acc' \<Rightarrow> reduce_groups acc' as)"

text \<open>
  The own keys of an object are enumerated (\<open>Object.keys\<close>, \<open>JSON.stringify\<close>) with
  the array indices first, in ascending order, and then the other keys in the order of
  their creation.
\<close>

definition array_index :: "string \<Rightarrow> nat option" where
  "array_index k =
     (case parse_nat k of
        None \<Rightarrow> None
      | Some n \<Rightarrow> if show_nat n = k \<and> n < 4294967295 then Some n else None)"

definition own_entries :: "(string \<times> 'v) list \<Rightarrow> (string \<times> 'v) list" where
  "own_entries obj =
     sort_key (\<lambda>kv. case array_index (fst kv) of None \<Rightarrow> 0 | Some n \<Rightarrow> n)
       (filter (\<lambda>kv. array_index (fst kv) \<noteq> None) obj)
     @ filter (\<lambda>kv. array_index (fst kv) = None) obj"

text \<open>An activity as the upstream sent it, in the payload.\<close>

definition DailyActivity_json :: "DailyActivity \<Rightarrow> json" where
  "DailyActivity_json a =
     JObj ((case activity_id a of None \<Rightarrow> [] | Some i \<Rightarrow> [(''id'', JNum i)])
           @ [(''name'', JStr (activity_name a)),
              (''group'', case activity_group a of None \<Rightarrow> JNull | Some g \<Rightarrow> JStr g)]
           @ (case lastUsed a of None \<Rightarrow> [] | Some u \<Rightarrow> [(''lastUsed'', JStr u)])
           @ [(''archived'', JBool (archived a))])"

definition activities_payload ::
  "DailyActivity list \<Rightarrow> (string \<times> DailyActivity list) list \<Rightarrow> json" where
  "activities_payload acts groupedActivities =
     (let totalActivities = length acts;
          archivedCount = length (filter archived acts);
          activeCount = totalActivities - archivedCount
      in JObj
           [(''summary'',
             JObj [(''total'', JNum totalActivities), (''active'', JNum activeCount),
                   (''archived'', JNum archivedCount),
                   (''groups'', JNum (length (own_entries groupedActivities)))]),
            (''activitiesByGroup'',
             JObj (map (\<lambda>kv. (fst kv, JArr (map DailyActivity_json (snd kv))))
                     (own_entries groupedActivities)))])"

definition getDailyActivities_handler ::
  "Env \<Rightarrow> (Request \<Rightarrow> DailyActivity list fetch_outcome) \<Rightarrow> bool option
   \<Rightarrow> McpResponse \<times> Request list" where
  "getDailyActivities_handler env fetch includeArchivedActivities =
     (case getDailyClient env of
        Inl e \<Rightarrow>
          (createErrorResponse (''Error retrieving activities: '' @ thrown_message e) None, [])
      | Inr client \<Rightarrow>
          (let (response, calls) = getActivities client fetch includeArchivedActivities
           in if \<not> success response then
                (createErrorResponse
                   (''Failed to retrieve activities: '' @ template_string (error response))
                   (Some (statusCode_details response)), calls)
              else
                (case data response of
                   None \<Rightarrow>
                     (createErrorResponse
                        (''Error retrieving activities: ''
                         @ thrown_message (undefined_property ''length'')) None, calls)
                 | Some acts \<Rightarrow>
                     (let totalActivities = length acts;
                          archivedCount = length (filter archived acts);
                          activeCount = totalActivities - archivedCount
                      in case reduce_groups [] acts of
                           Inl e \<Rightarrow>
                             (createErrorResponse
                                (''Error retrieving activities: '' @ thrown_message e) None, calls)
                         | Inr groupedActivities \<Rightarrow>
                             (createSuccessResponse
                                (''Retrieved '' @ show_nat totalActivities @ '' activities (''
                                 @ show_nat activeCount @ '' active, '' @ show_nat archivedCount
                                 @ '' archived)'')
                                (Some (activities_payload acts groupedActivities)),
                              calls)))))"

subsection \<open>Tool 3: getDailySummary\<close>
















subsection \<open>Tool 4: getDailyTimesheet\<close>








subsection \<open>Tool 5: createDailyActivities\<close>

definition createDailyActivities_handler ::
  "Env \<Rightarrow> Props \<Rightarrow> (Request \<Rightarrow> DailyActivity list fetch_outcome)
   \<Rightarrow> CreateActivityRequest list \<Rightarrow> bool option \<Rightarrow> McpResponse \<times> Request list" where
  "createDailyActivities_handler env props fetch new_activities archiveExistingActivities =
     (case getDailyClient env of
        Inl e \<Rightarrow>
          (createErrorResponse (''Error creating activities: '' @ thrown_message e) None, [])
      | Inr client \<Rightarrow>
          (let (response, calls) =
                 createActivities client fetch new_activities archiveExistingActivities
           in if \<not> success response then
                (createErrorResponse
                   (''Failed to create activities: '' @ template_string (error response))
                   (Some (statusCode_details response)), calls)
              else
                (case data response of
                   None \<Rightarrow>
                     (createErrorResponse
                        (''Error creating activities: ''
                         @ thrown_message (undefined_property ''length'')) None, calls)
                 | Some result \<Rightarrow>
                     (createSuccessResponse
                        (''Successfully processed '' @ show_nat (length new_activities)
                         @ '' activities''
                         @ (if archiveExistingActivities = Some True
                            then '' (existing activities were archived)'' else []))
                        (Some (JObj
                           [(''requestedActivities'', JNum (length new_activities)),
                            (''processedActivities'', JNum (length result)),
                            (''archivedExisting'', JBool (archiveExistingActivities = Some True)),
                            (''activities'', JArr (map DailyActivity_json result)),
                            (''executedBy'', JStr (login props @ '' ('' @ name props @ '')''))])),
                      calls))))"

subsection \<open>Tool 6: getDailyQuickSummary\<close>

text \<open>
  The period switch (daily-tools.ts, lines 310 to 348). \<open>None\<close> is the \<open>default\<close>
  branch. \<open>today\<close> is the clock reading \<open>now\<close>; the runtime's clock does not move
  while a handler computes, so the later readings inside \<open>getTodayISO\<close> and
  \<open>getDaysAgoISO\<close> are \<open>now\<close> as well. The start is computed before the end.
\<close>

definition both :: "js_thrown + string \<Rightarrow> js_thrown + string \<Rightarrow> js_thrown + string \<times> string" where
  "both a b =
     (case a of
        Inl e \<Rightarrow> Inl e
      | Inr s \<Rightarrow> (case b of Inl e \<Rightarrow> Inl e | Inr t \<Rightarrow> Inr (s, t)))"

definition quick_period :: "int \<Rightarrow> int \<Rightarrow> string \<Rightarrow> (js_thrown + string \<times> string) option" where
  "quick_period tza now period =
     (let today = now
      in if period = ''today'' then
           Some (both (getTodayISO now) (getTodayISO now))
         else if period = ''yesterday'' then
           Some (both (getDaysAgoISO tza now 1) (getDaysAgoISO tza now 1))
         else if period = ''this_week'' then
           (let startOfWeek = setDate tza today (getDate tza today - getDay tza today)
            in Some (both (iso_date_part startOfWeek) (getTodayISO now)))
         else if period = ''last_week'' then
           (let lastWeekEnd = setDate tza today (getDate tza today - getDay tza today - 1);
                lastWeekStart =
                  (case lastWeekEnd of
                     None \<Rightarrow> None
                   | Some e \<Rightarrow> setDate tza e (getDate tza e - 6))
            in Some (both (iso_date_part lastWeekStart) (iso_date_part lastWeekEnd)))
         else if period = ''this_month'' then
           Some (both (iso_date_part (new_Date_ymd tza (getFullYear tza today) (getMonth tza today) 1))
                      (getTodayISO now))
         else if period = ''last_7_days'' then
           Some (both (getDaysAgoISO tza now 7) (getTodayISO now))
         else if period = ''last_30_days'' then
           Some (both (getDaysAgoISO tza now 30) (getTodayISO now))
         else None)"




subsection \<open>registerDailyTools\<close>

text \<open>
  The server is the list of the names of its registered tools; \<open>server.tool\<close>
  adds one. The create tool is registered inside
  \<^verbatim>\<open>if (ALLOWED_USERNAMES.has(props.login)) { ... }\<close>.
\<close>

definition server_tool :: "string \<Rightarrow> string list \<Rightarrow> string list" where
  "server_tool tool_name server = server @ [tool_name]"

definition registerDailyTools :: "string list \<Rightarrow> Env \<Rightarrow> Props \<Rightarrow> string list" where
  "registerDailyTools server env props =
     (let s1 = server_tool ''getDailyUser'' server;
          s2 = server_tool ''getDailyActivities'' s1;
          s3 = server_tool ''getDailySummary'' s2;
          s4 = server_tool ''getDailyTimesheet'' s3;
          s5 = (if login props \<in> ALLOWED_USERNAMES
                then server_tool ''createDailyActivities'' s4 else s4)
      in server_tool ''getDailyQuickSummary'' s5)"

text \<open>\<open>registerAllTools\<close> (register-tools.ts) registers exactly these.\<close>

definition registerAllTools :: "string list \<Rightarrow> Env \<Rightarrow> Props \<Rightarrow> string list" where
  "registerAllTools server env props = registerDailyTools server env props"

subsection \<open>What the spec says about grouping\<close>

text \<open>
  The bucket label of an activity, and the grouping the spec describes: one bucket
  for every label that occurs, in the order of first occurrence, holding the
  activities with that label in their original order.
\<close>

definition bucket_label :: "DailyActivity \<Rightarrow> string" where
  "bucket_label a = or_default (activity_group a) ''Ungrouped''"

definition first_occurrences :: "'a list \<Rightarrow> 'a list" where
  "first_occurrences xs = rev (remdups (rev xs))"

definition grouped_by_label :: "DailyActivity list \<Rightarrow> (string \<times> DailyActivity list) list" where
  "grouped_by_label acts =
     map (\<lambda>k. (k, filter (\<lambda>a. bucket_label a = k) acts))
       (first_occurrences (map bucket_label acts))"



section \<open>Example inputs\<close>

definition example_client :: DailyTimeTrackingClient where
  "example_client = new_DailyTimeTrackingClient \<lparr>cfg_apiKey = ''secret'', cfg_baseUrl = None\<rparr>"

definition example_user :: DailyUser where
  "example_user = \<lparr>dataRetention = 30, lastSynced = None\<rparr>"

definition example_env :: Env where
  "example_env = \<lparr>DAILY_API_KEY = Some ''secret''\<rparr>"

definition constructor_activity :: DailyActivity where
  "constructor_activity =
     \<lparr>activity_id = Some 7, activity_name = ''Refactoring'', activity_group = Some ''constructor'',
      lastUsed = None, archived = False\<rparr>"







section \<open>Properties of formatDuration\<close>

subsection \<open>Decimal numerals\<close>

lemma isDigit_digit_char: "n < 10 \<Longrightarrow> isDigit (digit_char n)"
  by (simp add: isDigit_def digit_char_def)

lemma digit_val_digit_char: "n < 10 \<Longrightarrow> digit_val (digit_char n) = n"
  by (simp add: digit_val_def digit_char_def)

lemma show_nat_nonempty: "show_nat n \<noteq> []"
  by (subst show_nat.simps) simp

lemma show_nat_digits: "list_all isDigit (show_nat n)"
proof (induction n rule: show_nat.induct)
  case (1 n)
  show ?case
  proof (cases "n < 10")
    case True
    then show ?thesis by (subst show_nat.simps) (simp add: isDigit_digit_char)
  next
    case False
    with 1 show ?thesis by (subst show_nat.simps) (simp add: isDigit_digit_char)
  qed
qed

lemma show_nat_value: "foldl (\<lambda>acc c. 10 * acc + digit_val c) 0 (show_nat n) = n"
proof (induction n rule: show_nat.induct)
  case (1 n)
  show ?case
  proof (cases "n < 10")
    case True
    then show ?thesis by (subst show_nat.simps) (simp add: digit_val_digit_char)
  next
    case False
    with 1 show ?thesis by (subst show_nat.simps) (simp add: digit_val_digit_char)
  qed
qed

lemma parse_show_nat: "parse_nat (show_nat n) = Some n"
  by (simp add: parse_nat_def show_nat_nonempty show_nat_digits show_nat_value)

lemma show_nat_inj: "show_nat a = show_nat b \<Longrightarrow> a = b"
  by (metis parse_show_nat option.inject)

lemma isDigit_not_letter:
  "isDigit c \<Longrightarrow> c \<noteq> CHR ''h'' \<and> c \<noteq> CHR ''m'' \<and> c \<noteq> CHR ''s'' \<and> c \<noteq> CHR '' ''
     \<and> c \<noteq> CHR ''-'' \<and> c \<noteq> CHR ''.'' \<and> c \<noteq> CHR ''%'' \<and> c \<noteq> CHR ''T''"
  by (auto simp: isDigit_def)


lemma digit_char_numeral [simp]:
  "digit_char 0 = CHR ''0''" "digit_char 1 = CHR ''1''" "digit_char 2 = CHR ''2''"
  "digit_char 3 = CHR ''3''" "digit_char 4 = CHR ''4''" "digit_char 5 = CHR ''5''"
  "digit_char 6 = CHR ''6''" "digit_char 7 = CHR ''7''" "digit_char 8 = CHR ''8''"
  "digit_char 9 = CHR ''9''" "digit_char (Suc 0) = CHR ''1''"
  by code_simp+

subsection \<open>Formatted durations read back\<close>


lemma split_on_append: "sep \<notin> set a \<Longrightarrow> split_on sep (a @ sep # b) = a # split_on sep b"
  by (induction a) auto














lemma formatDuration_examples:
  "formatDuration 5400 = ''1h 30m 0s''"
  "formatDuration 3599 = ''59m 59s''"
  "formatDuration 59 = ''59s''"
  "formatDuration 0 = ''0s''"
  "parseDuration ''1h 30m 0s'' = Some 5400"
  by (simp_all add: formatDuration_def show_nat.simps parseDuration_def parse_component_def
      parse_nat_def isDigit_def digit_val_def unit_seconds_def)

section \<open>Properties of the calendar\<close>

lemma year_up_upper: "d < DayFromYear (year_up y d + 1)"
proof (induction y d rule: year_up.induct)
  case (1 y d)
  show ?case
  proof (cases "DayFromYear (y + 1) \<le> d")
    case True
    with 1 show ?thesis by (subst year_up.simps) simp
  next
    case False
    then show ?thesis by (subst year_up.simps) simp
  qed
qed

lemma year_down_lower: "DayFromYear (year_down y d) \<le> d"
proof (induction y d rule: year_down.induct)
  case (1 y d)
  show ?case
  proof (cases "d < DayFromYear y")
    case True
    with 1 show ?thesis by (subst year_down.simps) simp
  next
    case False
    then show ?thesis by (subst year_down.simps) simp
  qed
qed

lemma year_down_upper: "d < DayFromYear (y + 1) \<Longrightarrow> d < DayFromYear (year_down y d + 1)"
proof (induction y d rule: year_down.induct)
  case (1 y d)
  show ?case
  proof (cases "d < DayFromYear y")
    case True
    with 1 show ?thesis by (subst year_down.simps) simp
  next
    case False
    with 1 show ?thesis by (subst year_down.simps) simp
  qed
qed

lemma YearFromDay_bounds:
  "DayFromYear (YearFromDay d) \<le> d \<and> d < DayFromYear (YearFromDay d + 1)"
  unfolding YearFromDay_def
  using year_down_lower year_down_upper [OF year_up_upper] by blast

lemma DayFromYear_mono: "y \<le> y' \<Longrightarrow> DayFromYear y \<le> DayFromYear y'"
proof (induction y' rule: int_ge_induct)
  case base
  show ?case by simp
next
  case (step i)
  then show ?case using DayFromYear_less_Suc [of i] by simp
qed

lemma DayFromYear_strict_mono: "y < y' \<Longrightarrow> DayFromYear y < DayFromYear y'"
  using DayFromYear_mono [of "y + 1" y'] DayFromYear_less_Suc [of y] by simp

lemma YearFromDay_unique:
  assumes "DayFromYear y \<le> d" and "d < DayFromYear (y + 1)"
  shows "YearFromDay d = y"
proof (rule ccontr)
  assume ne: "YearFromDay d \<noteq> y"
  let ?z = "YearFromDay d"
  have b: "DayFromYear ?z \<le> d" "d < DayFromYear (?z + 1)"
    using YearFromDay_bounds [of d] by simp_all
  show False
  proof (cases "?z < y")
    case True
    then have "DayFromYear (?z + 1) \<le> DayFromYear y" by (intro DayFromYear_mono) simp
    with b assms show False by simp
  next
    case False
    with ne have "y + 1 \<le> ?z" by simp
    then have "DayFromYear (y + 1) \<le> DayFromYear ?z" by (rule DayFromYear_mono)
    with b assms show False by simp
  qed
qed










section \<open>Properties of isValidISODate\<close>

lemmas date_eval =
  isValidISODate_def Date_parse_def regex_test.simps iso8601Regex_def isoDateTimeLayout_def
  isDigit_def num_at_def digit_val_def TimeClip_def MakeDate_def MakeDay_def MakeTime_def
  DayFromYear_def DaysBeforeMonth_def isLeapYear_def msPerDay_def Let_def

lemma isValidISODate_examples:
  "isValidISODate ''2023-02-28''"
  "isValidISODate ''2024-02-29''"
  "\<not> isValidISODate ''2023-13-01''"
  "\<not> isValidISODate ''2023-00-10''"
  "\<not> isValidISODate ''2023-01-32''"
  "\<not> isValidISODate ''2023-01-00''"
  "\<not> isValidISODate ''23-1-1''"
  "\<not> isValidISODate ''2023/01/01''"
  "\<not> isValidISODate []"
  by (simp_all add: date_eval)

text \<open>
  The day 30 of February is read as the second day of March: the Date is valid, and
  the validator accepts the text.
\<close>

lemma Date_parse_feb_30:
  "Date_parse ''2023-02-30T00:00:00.000Z'' = Some 1677715200000"
  "Date_parse ''2023-03-02T00:00:00.000Z'' = Some 1677715200000"
  by (simp_all add: date_eval)

text \<open>
  Claim C5, at the input \<open>"2023-02-30"\<close>: the text matches the pattern and is no
  real calendar date (February 2023 has 28 days), and \<open>isValidISODate\<close> returns true,
  where the claim says false.
\<close>

theorem isValidISODate_accepts_feb_30:
  "isValidISODate ''2023-02-30'' \<and> regex_test iso8601Regex ''2023-02-30''
   \<and> \<not> real_calendar_date ''2023-02-30''"
  by (simp add: real_calendar_date_def DaysInMonth_def date_eval)

lemma regex_test_append:
  "regex_test p1 s1 \<Longrightarrow> regex_test (p1 @ p2) (s1 @ s2) = regex_test p2 s2"
  by (induction p1 s1 rule: regex_test.induct) auto

lemma regex_test_length: "regex_test p s \<Longrightarrow> length s = length p"
  by (induction p s rule: regex_test.induct) auto

lemma iso8601Regex_shape:
  assumes "regex_test iso8601Regex s"
  shows "s = [s ! 0, s ! 1, s ! 2, s ! 3, CHR ''-'', s ! 5, s ! 6, CHR ''-'', s ! 8, s ! 9]"
    and "isDigit (s ! 0)" "isDigit (s ! 1)" "isDigit (s ! 2)" "isDigit (s ! 3)"
proof -
  from assms have len: "length s = 10"
    by (auto dest: regex_test_length simp: iso8601Regex_def)
  then obtain y1 y2 y3 y4 h1 m1 m2 h2 d1 d2 where s: "s = [y1, y2, y3, y4, h1, m1, m2, h2, d1, d2]"
    by (auto simp: length_Suc_conv eval_nat_numeral)
  with assms show "s = [s ! 0, s ! 1, s ! 2, s ! 3, CHR ''-'', s ! 5, s ! 6, CHR ''-'', s ! 8, s ! 9]"
    and "isDigit (s ! 0)" "isDigit (s ! 1)" "isDigit (s ! 2)" "isDigit (s ! 3)"
    by (simp_all add: iso8601Regex_def)
qed

lemma digit_val_le: "isDigit c \<Longrightarrow> digit_val c \<le> 9"
  by (auto simp: isDigit_def digit_val_def)

lemma year_field_range:
  assumes "s = [y1, y2, y3, y4, CHR ''-'', m1, m2, CHR ''-'', d1, d2]"
    and "isDigit y1" "isDigit y2" "isDigit y3" "isDigit y4"
  shows "0 \<le> num_at s 0 4" and "num_at s 0 4 \<le> 9999"
  using assms(2-5) [THEN digit_val_le] by (simp_all add: num_at_def assms(1))

lemma appended_fields:
  assumes "s = [y1, y2, y3, y4, CHR ''-'', m1, m2, CHR ''-'', d1, d2]"
  shows "num_at (s @ ''T00:00:00.000Z'') 0 4 = num_at s 0 4"
    "num_at (s @ ''T00:00:00.000Z'') 5 2 = num_at s 5 2"
    "num_at (s @ ''T00:00:00.000Z'') 8 2 = num_at s 8 2"
    "num_at (s @ ''T00:00:00.000Z'') 11 2 = 0"
    "num_at (s @ ''T00:00:00.000Z'') 14 2 = 0"
    "num_at (s @ ''T00:00:00.000Z'') 17 2 = 0"
    "num_at (s @ ''T00:00:00.000Z'') 20 3 = 0"
  by (simp_all add: assms num_at_def digit_val_def)

lemma isValidISODate_iff:
  "isValidISODate s \<longleftrightarrow>
     regex_test iso8601Regex s \<and> 1 \<le> num_at s 5 2 \<and> num_at s 5 2 \<le> 12
     \<and> 1 \<le> num_at s 8 2 \<and> num_at s 8 2 \<le> 31"
proof (cases "regex_test iso8601Regex s")
  case False
  then show ?thesis by (simp add: isValidISODate_def)
next
  case True
  note s = iso8601Regex_shape(1) [OF True] and dg = iso8601Regex_shape(2-5) [OF True]
  have layout: "regex_test isoDateTimeLayout (s @ ''T00:00:00.000Z'')"
    unfolding isoDateTimeLayout_def
    by (subst regex_test_append [OF True]) (simp add: isDigit_def)
  define year where "year = num_at s 0 4"
  define month where "month = num_at s 5 2"
  define day where "day = num_at s 8 2"
  have fields: "num_at (s @ ''T00:00:00.000Z'') 0 4 = year"
    "num_at (s @ ''T00:00:00.000Z'') 5 2 = month"
    "num_at (s @ ''T00:00:00.000Z'') 8 2 = day"
    "num_at (s @ ''T00:00:00.000Z'') 11 2 = 0"
    "num_at (s @ ''T00:00:00.000Z'') 14 2 = 0"
    "num_at (s @ ''T00:00:00.000Z'') 17 2 = 0"
    "num_at (s @ ''T00:00:00.000Z'') 20 3 = 0"
    unfolding year_def month_def day_def by (rule appended_fields [OF s])+
  have yr: "0 \<le> year" "year \<le> 9999"
    unfolding year_def by (rule year_field_range [OF s dg])+
  have clip: "TimeClip (MakeDate (MakeDay year (month - 1) day) (MakeTime 0 0 0 0)) \<noteq> None"
    if "1 \<le> month" "month \<le> 12" "1 \<le> day" "day \<le> 31"
  proof -
    have m: "(month - 1) div 12 = 0" "(month - 1) mod 12 = month - 1"
      using that by simp_all
    have "DayFromYear 0 \<le> DayFromYear year" "DayFromYear year \<le> DayFromYear 9999"
      using yr by (simp_all add: DayFromYear_mono)
    then have dy: "- 719528 \<le> DayFromYear year" "DayFromYear year \<le> 2932532"
      by (simp_all add: DayFromYear_def)
    define l :: int where "l = (if isLeapYear year then 1 else 0)"
    have "l = 0 \<or> l = 1"
      by (simp add: l_def)
    then have db: "0 \<le> DaysBeforeMonth (month - 1) l \<and> DaysBeforeMonth (month - 1) l \<le> 335"
      by (auto simp: DaysBeforeMonth_def)
    have "MakeDay year (month - 1) day = DayFromYear year + DaysBeforeMonth (month - 1) l + day - 1"
      by (simp add: MakeDay_def m Let_def l_def)
    then have "\<bar>MakeDay year (month - 1) day\<bar> \<le> 3000000"
      using dy db that by (simp add: abs_le_iff)
    then have "\<bar>MakeDay year (month - 1) day * 86400000\<bar> \<le> 3000000 * 86400000"
      by (simp add: abs_mult)
    then show ?thesis
      by (simp add: TimeClip_def MakeDate_def MakeTime_def msPerDay_def)
  qed
  have parse: "Date_parse (s @ ''T00:00:00.000Z'') =
       (if \<not> (1 \<le> month \<and> month \<le> 12) then None
        else if \<not> (1 \<le> day \<and> day \<le> 31) then None
        else TimeClip (MakeDate (MakeDay year (month - 1) day) (MakeTime 0 0 0 0)))"
    unfolding Date_parse_def fields Let_def using layout by simp
  show ?thesis
  proof (cases "1 \<le> month \<and> month \<le> 12 \<and> 1 \<le> day \<and> day \<le> 31")
    case True
    with clip have "Date_parse (s @ ''T00:00:00.000Z'') \<noteq> None"
      unfolding parse by simp
    with True \<open>regex_test iso8601Regex s\<close> show ?thesis
      by (simp add: isValidISODate_def month_def day_def)
  next
    case False
    then have "Date_parse (s @ ''T00:00:00.000Z'') = None"
      unfolding parse by auto
    with False \<open>regex_test iso8601Regex s\<close> show ?thesis
      by (auto simp add: isValidISODate_def month_def day_def)
  qed
qed

lemma DaysInMonth_le: "DaysInMonth y m \<le> 31"
  by (simp add: DaysInMonth_def)

lemma real_date_is_valid:
  "regex_test iso8601Regex s \<Longrightarrow> real_calendar_date s \<Longrightarrow> isValidISODate s"
  using DaysInMonth_le [of "num_at s 0 4" "num_at s 5 2"]
  by (simp add: isValidISODate_iff real_calendar_date_def)

section \<open>Dates as text\<close>

lemma pad_digits: "list_all isDigit (pad w n)"
  using show_nat_digits [of n] by (auto simp add: pad_def list_all_iff isDigit_def)




lemma T_not_in_pad: "CHR ''T'' \<notin> set (pad w n)"
  using pad_digits [of w n] by (auto simp: list_all_iff isDigit_def)

lemma T_not_in_iso_year: "CHR ''T'' \<notin> set (iso_year y)"
  by (simp add: iso_year_def T_not_in_pad)

lemma T_not_in_utc_date_string: "CHR ''T'' \<notin> set (utc_date_string d)"
  by (simp add: utc_date_string_def T_not_in_pad T_not_in_iso_year)

lemma iso_date_part_Some: "iso_date_part (Some t) = Inr (utc_date_string (Day t))"
proof -
  have "toISOString (Some t) =
      Inr (utc_date_string (Day t) @ CHR ''T'' #
           (pad 2 (nat (HourFromTime t)) @ '':'' @ pad 2 (nat (MinFromTime t)) @ '':''
            @ pad 2 (nat (SecFromTime t)) @ ''.'' @ pad 3 (nat (msFromTime t)) @ ''Z''))"
    by (simp add: toISOString_def utc_date_string_def YearFromTime_def MonthFromTime_def
        DateFromTime_def)
  then show ?thesis
    by (simp add: iso_date_part_def split_on_append [OF T_not_in_utc_date_string])
qed

lemma getTodayISO_eq: "getTodayISO now = Inr (utc_date_string (Day now))"
  by (simp add: getTodayISO_def iso_date_part_Some)





section \<open>Moving a Date by days\<close>

lemma Day_shift: "Day (t + k * msPerDay) = Day t + k"
  by (simp add: Day_def msPerDay_def)



lemma TimeClip_in_range: "\<bar>t\<bar> \<le> 8640000000000000 \<Longrightarrow> TimeClip t = Some t"
  by (simp add: TimeClip_def)

lemma days_ago:
  assumes "0 \<le> now" "now < 253402300800000" "0 \<le> k" "k \<le> 37"
  shows "iso_date_part (TimeClip (now - k * msPerDay)) = Inr (utc_date_string (Day now - k))"
proof -
  have "\<bar>now - k * msPerDay\<bar> \<le> 8640000000000000"
    using assms by (simp add: msPerDay_def abs_le_iff)
  then have "TimeClip (now - k * msPerDay) = Some (now + (- k) * msPerDay)"
    by (simp add: TimeClip_in_range)
  then show ?thesis
    by (simp only: iso_date_part_Some Day_shift) simp
qed

section \<open>Rounding to binary64\<close>







section \<open>The percentage in tenths\<close>




section \<open>The allow-list gate\<close>

lemma registerDailyTools_list:
  "registerDailyTools server env props =
     server @ [''getDailyUser'', ''getDailyActivities'', ''getDailySummary'', ''getDailyTimesheet'']
     @ (if login props \<in> ALLOWED_USERNAMES then [''createDailyActivities''] else [])
     @ [''getDailyQuickSummary'']"
  by (simp add: registerDailyTools_def server_tool_def Let_def)

text \<open>
  Claim C8. On a fresh server, the create tool is registered if and only if the
  caller's \<open>login\<close> is in the allow-list; being in the allow-list is being equal,
  character by character, to its one entry (another case, a longer or shorter name and
  a wildcard are not members); and the five other tools are registered for every
  caller.
\<close>

theorem createDailyActivities_gated:
  "(''createDailyActivities'' \<in> set (registerDailyTools [] env props)
      \<longleftrightarrow> login props \<in> ALLOWED_USERNAMES)
   \<and> (login props \<in> ALLOWED_USERNAMES \<longleftrightarrow> login props = ''coleam00'')
   \<and> ''Coleam00'' \<notin> ALLOWED_USERNAMES \<and> ''COLEAM00'' \<notin> ALLOWED_USERNAMES
   \<and> ''coleam0'' \<notin> ALLOWED_USERNAMES \<and> ''coleam00 '' \<notin> ALLOWED_USERNAMES
   \<and> ''*'' \<notin> ALLOWED_USERNAMES \<and> ''coleam*'' \<notin> ALLOWED_USERNAMES
   \<and> {''getDailyUser'', ''getDailyActivities'', ''getDailySummary'', ''getDailyTimesheet'',
       ''getDailyQuickSummary''} \<subseteq> set (registerDailyTools [] env props)
   \<and> registerAllTools [] env props = registerDailyTools [] env props"
  by (simp add: registerDailyTools_list ALLOWED_USERNAMES_def registerAllTools_def)

section \<open>The outcomes of makeRequest\<close>

lemma makeRequest_calls: "snd (makeRequest c fetch endpoint options) = [build_request c endpoint options]"
  by (simp add: makeRequest_def Let_def)

lemma client_calls_are_makeRequest:
  "getUser c fu = makeRequest c fu ''/user'' no_init"
  "\<exists>ep. getActivities c fa inc = makeRequest c fa ep no_init"
  "\<exists>ep. getSummary c fs start end' inc = makeRequest c fs ep no_init"
  "\<exists>ep. getTimesheet c ft start end' inc = makeRequest c ft ep no_init"
  "\<exists>ep opts. createActivities c fa new archive = makeRequest c fa ep opts"
  by (auto simp add: getUser_def getActivities_def getSummary_def getTimesheet_def
      createActivities_def Let_def)

text \<open>
  Claim C1, as amended. Whatever the endpoint and the options (that is, for each of
  the five client calls, which are \<open>makeRequest\<close> at their endpoints), one request is
  sent and the one result follows from what \<open>fetch\<close> does with it: 200 with a body
  that parses gives success with the payload and status 200; 204 gives success with no
  payload; 400, 401 and 500 give the failures with the messages below (as the source
  spells them, with a capital after the colon); any other status \<open>n\<close> gives
  "Unexpected response status: n"; a rejected \<open>fetch\<close>, and a 200 whose body does not
  parse, give "Network error: " and the thrown message, with no status code.
\<close>

theorem makeRequest_outcomes:
  fixes fetch :: "Request \<Rightarrow> 'a fetch_outcome"
  defines "out \<equiv> \<lambda>c endpoint options. fetch (build_request c endpoint options)"
  shows
  "snd (makeRequest c fetch endpoint options) = [build_request c endpoint options]
   \<and> (\<forall>d. out c endpoint options = Responded 200 (JsonBody d) \<longrightarrow>
          fst (makeRequest c fetch endpoint options)
          = \<lparr>success = True, data = Some d, error = None, statusCode = Some 200\<rparr>)
   \<and> (\<forall>b. out c endpoint options = Responded 204 b \<longrightarrow>
          fst (makeRequest c fetch endpoint options)
          = \<lparr>success = True, data = None, error = None, statusCode = Some 204\<rparr>)
   \<and> (\<forall>b. out c endpoint options = Responded 400 b \<longrightarrow>
          fst (makeRequest c fetch endpoint options)
          = \<lparr>success = False, data = None,
             error = Some ''Bad Request: The request was invalid or missing required data'',
             statusCode = Some 400\<rparr>)
   \<and> (\<forall>b. out c endpoint options = Responded 401 b \<longrightarrow>
          fst (makeRequest c fetch endpoint options)
          = \<lparr>success = False, data = None,
             error = Some ''Unauthorized: Invalid or missing API key'',
             statusCode = Some 401\<rparr>)
   \<and> (\<forall>b. out c endpoint options = Responded 500 b \<longrightarrow>
          fst (makeRequest c fetch endpoint options)
          = \<lparr>success = False, data = None,
             error = Some ''Internal Server Error: The server encountered an unexpected error'',
             statusCode = Some 500\<rparr>)
   \<and> (\<forall>n b. out c endpoint options = Responded n b \<and> n \<notin> {200, 204, 400, 401, 500} \<longrightarrow>
          fst (makeRequest c fetch endpoint options)
          = \<lparr>success = False, data = None,
             error = Some (''Unexpected response status: '' @ show_nat n),
             statusCode = Some n\<rparr>)
   \<and> (\<forall>e. out c endpoint options = Rejected e
              \<or> out c endpoint options = Responded 200 (BadBody e) \<longrightarrow>
          fst (makeRequest c fetch endpoint options)
          = \<lparr>success = False, data = None,
             error = Some (''Network error: '' @ thrown_message e), statusCode = None\<rparr>)"
  by (auto simp add: out_def makeRequest_def network_error_def Let_def)

theorem makeRequest_outcomes_witness:
  "fst (getUser example_client (\<lambda>r. Responded 200 (JsonBody example_user)))
     = \<lparr>success = True, data = Some example_user, error = None, statusCode = Some 200\<rparr>
   \<and> fst (getUser example_client (\<lambda>r. Responded 204 (BadBody (JsError ''Unexpected end of JSON input''))))
     = \<lparr>success = True, data = None, error = None, statusCode = Some 204\<rparr>
   \<and> fst (getUser example_client (\<lambda>r. Responded 400 (JsonBody example_user)))
     = \<lparr>success = False, data = None,
        error = Some ''Bad Request: The request was invalid or missing required data'',
        statusCode = Some 400\<rparr>
   \<and> fst (getUser example_client (\<lambda>r. Responded 401 (JsonBody example_user)))
     = \<lparr>success = False, data = None, error = Some ''Unauthorized: Invalid or missing API key'',
        statusCode = Some 401\<rparr>
   \<and> fst (getUser example_client (\<lambda>r. Responded 500 (JsonBody example_user)))
     = \<lparr>success = False, data = None,
        error = Some ''Internal Server Error: The server encountered an unexpected error'',
        statusCode = Some 500\<rparr>
   \<and> fst (getUser example_client (\<lambda>r. Responded 404 (JsonBody example_user)))
     = \<lparr>success = False, data = None, error = Some ''Unexpected response status: 404'',
        statusCode = Some 404\<rparr>
   \<and> fst (getUser example_client (\<lambda>r. Rejected (JsError ''fetch failed'')))
     = \<lparr>success = False, data = None, error = Some ''Network error: fetch failed'',
        statusCode = None\<rparr>
   \<and> snd (getUser example_client (\<lambda>r. Rejected (JsError ''fetch failed'')))
     = [\<lparr>req_url = ''https://api.dailytimetracking.com/user'', req_method = None,
         req_headers = [(''Content-Type'', ''application/json''), (''Accept'', ''application/json''),
                        (''API-Key'', ''secret'')],
         req_body = None\<rparr>]"
proof -
  have "getUser example_client f = makeRequest example_client f ''/user'' no_init" for f
    by (simp add: getUser_def)
  note g = this
  have u: "build_request example_client ''/user'' no_init
      = \<lparr>req_url = ''https://api.dailytimetracking.com/user'', req_method = None,
         req_headers = [(''Content-Type'', ''application/json''), (''Accept'', ''application/json''),
                        (''API-Key'', ''secret'')],
         req_body = None\<rparr>"
    by (simp add: build_request_def example_client_def new_DailyTimeTrackingClient_def
        getHeaders_def spread_def no_init_def)
  have "fst (getUser example_client (\<lambda>r. Responded 200 (JsonBody example_user)))
     = \<lparr>success = True, data = Some example_user, error = None, statusCode = Some 200\<rparr>"
    using makeRequest_outcomes [of example_client "\<lambda>r. Responded 200 (JsonBody example_user)" "''/user''" no_init]
    by (simp add: g)
  moreover have "fst (getUser example_client (\<lambda>r. Responded 204 (BadBody (JsError ''Unexpected end of JSON input''))))
     = \<lparr>success = True, data = None, error = None, statusCode = Some 204\<rparr>"
    using makeRequest_outcomes [of example_client "\<lambda>r. Responded 204 (BadBody (JsError ''Unexpected end of JSON input'')) :: DailyUser fetch_outcome" "''/user''" no_init]
    by (simp add: g)
  moreover have "fst (getUser example_client (\<lambda>r. Responded 400 (JsonBody example_user)))
     = \<lparr>success = False, data = None,
        error = Some ''Bad Request: The request was invalid or missing required data'',
        statusCode = Some 400\<rparr>"
    using makeRequest_outcomes [of example_client "\<lambda>r. Responded 400 (JsonBody example_user)" "''/user''" no_init]
    by (simp add: g)
  moreover have "fst (getUser example_client (\<lambda>r. Responded 401 (JsonBody example_user)))
     = \<lparr>success = False, data = None, error = Some ''Unauthorized: Invalid or missing API key'',
        statusCode = Some 401\<rparr>"
    using makeRequest_outcomes [of example_client "\<lambda>r. Responded 401 (JsonBody example_user)" "''/user''" no_init]
    by (simp add: g)
  moreover have "fst (getUser example_client (\<lambda>r. Responded 500 (JsonBody example_user)))
     = \<lparr>success = False, data = None,
        error = Some ''Internal Server Error: The server encountered an unexpected error'',
        statusCode = Some 500\<rparr>"
    using makeRequest_outcomes [of example_client "\<lambda>r. Responded 500 (JsonBody example_user)" "''/user''" no_init]
    by (simp add: g)
  moreover have "fst (getUser example_client (\<lambda>r. Responded 404 (JsonBody example_user)))
     = \<lparr>success = False, data = None, error = Some ''Unexpected response status: 404'',
        statusCode = Some 404\<rparr>"
    using makeRequest_outcomes [of example_client "\<lambda>r. Responded 404 (JsonBody example_user)" "''/user''" no_init]
    by (simp add: g show_nat.simps)
  moreover have "fst (getUser example_client (\<lambda>r. Rejected (JsError ''fetch failed'')))
     = \<lparr>success = False, data = None, error = Some ''Network error: fetch failed'',
        statusCode = None\<rparr>"
    using makeRequest_outcomes [of example_client "\<lambda>r. Rejected (JsError ''fetch failed'') :: DailyUser fetch_outcome" "''/user''" no_init]
    by (simp add: g thrown_message_def)
  moreover have "snd (getUser example_client (\<lambda>r. Rejected (JsError ''fetch failed'')))
     = [\<lparr>req_url = ''https://api.dailytimetracking.com/user'', req_method = None,
         req_headers = [(''Content-Type'', ''application/json''), (''Accept'', ''application/json''),
                        (''API-Key'', ''secret'')],
         req_body = None\<rparr>]"
    using makeRequest_outcomes [of example_client "\<lambda>r. Rejected (JsError ''fetch failed'') :: DailyUser fetch_outcome" "''/user''" no_init]
    by (simp add: g u)
  ultimately show ?thesis
    by (intro conjI)
qed

text \<open>
  The claim as stated gives the three fixed messages with a small letter after the
  colon; the results carry a capital there.
\<close>

theorem makeRequest_messages_counterexample:
  "error (fst (getUser example_client (\<lambda>r. Responded 400 (JsonBody example_user))))
     \<noteq> Some ''Bad Request: the request was invalid or missing required data''
   \<and> error (fst (getUser example_client (\<lambda>r. Responded 401 (JsonBody example_user))))
     \<noteq> Some ''Unauthorized: invalid or missing API key''
   \<and> error (fst (getUser example_client (\<lambda>r. Responded 500 (JsonBody example_user))))
     \<noteq> Some ''Internal Server Error: the server encountered an unexpected error''
   \<and> \<not> success (fst (getUser example_client
          (\<lambda>r. Responded 200 (BadBody (JsError ''Unexpected token < in JSON at position 0'')))))"
  by (simp add: getUser_def makeRequest_def network_error_def Let_def)

text \<open>
  The scenario of the spec: the upstream answers 401 to \<open>GET /user\<close>; the handler
  returns the error envelope with the message and the status code.
\<close>

lemma getDailyUser_unauthorized:
  "getDailyUser_handler \<lparr>DAILY_API_KEY = Some ''secret''\<rparr> (\<lambda>r. Responded 401 (JsonBody example_user))
   = (\<lparr>content = [\<lparr>content_type = ''text'',
        content_text = ''**Error**'' @ nl @ nl
          @ ''Failed to retrieve user information: Unauthorized: Invalid or missing API key''
          @ nl @ nl @ ''**Details:**'' @ nl @ fence @ ''json'' @ nl
          @ ''{'' @ nl @ ''  '' @ json_quote ''statusCode'' @ '': 401'' @ nl @ ''}'' @ nl @ fence,
        isError = True\<rparr>]\<rparr>,
      [\<lparr>req_url = ''https://api.dailytimetracking.com/user'', req_method = None,
        req_headers = [(''Content-Type'', ''application/json''), (''Accept'', ''application/json''),
                       (''API-Key'', ''secret'')],
        req_body = None\<rparr>])"
  by (simp add: getDailyUser_handler_def getDailyClient_def getUser_def makeRequest_def Let_def
      new_DailyTimeTrackingClient_def build_request_def getHeaders_def spread_def no_init_def
      createErrorResponse_def template_string_def statusCode_details_def JSON_stringify_def
      show_nat.simps)

section \<open>The quick periods\<close>









lemma replicate_small:
  "replicate 1 x = [x]" "replicate 2 x = [x, x]" "replicate 3 x = [x, x, x]"
  by (simp_all add: numeral_2_eq_2 numeral_3_eq_3)

lemma utc_date_string_in_year:
  assumes "DayFromYear y \<le> d" "d < DayFromYear (y + 1)"
  shows "utc_date_string d =
     iso_year y @ ''-''
     @ pad 2 (nat (MonthInYear (d - DayFromYear y) (if isLeapYear y then 1 else 0) + 1)) @ ''-''
     @ pad 2 (nat (DateInYear (d - DayFromYear y) (if isLeapYear y then 1 else 0)))"
  using YearFromDay_unique [OF assms]
  by (simp add: utc_date_string_def MonthFromDay_def DateFromDay_def DayWithinYear_def
      InLeapYear_def)

lemmas date_text_eval =
  DayFromYear_def isLeapYear_def MonthInYear_def DateInYear_def iso_year_def pad_def
  show_nat.simps replicate_small Let_def




text \<open>
  The time zone matters: with local time two hours ahead of UTC, early on the first
  of November local time, this_month starts on the last day of October.
\<close>

lemma this_month_in_another_zone:
  "quick_period 7200000 1698796800000 ''this_month'' = Some (Inr (''2023-10-31'', ''2023-11-01''))"
proof -
  have y: "YearFromDay 19662 = 2023"
    by (rule YearFromDay_unique) (simp_all add: DayFromYear_def)
  have lt: "Day (LocalTime 7200000 1698796800000) = 19662"
    by (simp add: LocalTime_def Day_def msPerDay_def)
  have m: "MonthFromDay 19662 = 10"
    by (simp add: MonthFromDay_def DayWithinYear_def InLeapYear_def y date_text_eval)
  have "new_Date_ymd 7200000 (getFullYear 7200000 1698796800000) (getMonth 7200000 1698796800000) 1
        = Some 1698789600000"
    by (simp add: new_Date_ymd_def getFullYear_def getMonth_def YearFromTime_def MonthFromTime_def
        lt y m MakeDay_def MakeDate_def MakeTime_def UTC_def TimeClip_def msPerDay_def
        DaysBeforeMonth_def date_text_eval)
  moreover have "Day 1698789600000 = 19661" "Day 1698796800000 = 19662"
    by (simp_all add: Day_def msPerDay_def)
  moreover have "utc_date_string 19661 = ''2023-10-31''" "utc_date_string 19662 = ''2023-11-01''"
    by (subst utc_date_string_in_year [of 2023]; simp add: date_text_eval)+
  ultimately show ?thesis
    by (simp add: quick_period_def both_def getTodayISO_eq iso_date_part_Some Let_def)
qed

section \<open>Rejections before any network call\<close>






section \<open>Grouping the activities\<close>

lemma reduce_groups_snoc:
  "reduce_groups acc (xs @ [a]) =
     (case reduce_groups acc xs of Inl e \<Rightarrow> Inl e | Inr acc' \<Rightarrow> group_step acc' a)"
  by (induction xs arbitrary: acc) (auto split: sum.splits)

lemma first_occurrences_snoc:
  "first_occurrences (xs @ [x]) =
     (if x \<in> set xs then first_occurrences xs else first_occurrences xs @ [x])"
  by (simp add: first_occurrences_def)

lemma set_first_occurrences: "set (first_occurrences xs) = set xs"
  by (simp add: first_occurrences_def)

lemma distinct_first_occurrences: "distinct (first_occurrences xs)"
  by (simp add: first_occurrences_def)

lemma map_of_grouped:
  "map_of (map (\<lambda>k. (k, f k)) ks) k = (if k \<in> set ks then Some (f k) else None)"
  by (induction ks) auto

lemma group_step_grouped:
  assumes "bucket_label a \<notin> set Object_prototype_keys"
  shows "group_step (grouped_by_label xs) a = Inr (grouped_by_label (xs @ [a]))"
proof (cases "bucket_label a \<in> set (map bucket_label xs)")
  case True
  then have get: "js_get (grouped_by_label xs) (bucket_label a)
              = Own (filter (\<lambda>b. bucket_label b = bucket_label a) xs)"
    by (simp add: js_get_def grouped_by_label_def map_of_grouped set_first_occurrences)
  have keys: "first_occurrences (map bucket_label (xs @ [a])) = first_occurrences (map bucket_label xs)"
    using True by (simp add: first_occurrences_snoc)
  show ?thesis
    unfolding group_step_def Let_def bucket_label_def [symmetric] get
    by (auto simp add: grouped_by_label_def keys simp del: map_append)
next
  case False
  then have get: "js_get (grouped_by_label xs) (bucket_label a) = Undefined"
    using assms
    by (simp add: js_get_def grouped_by_label_def map_of_grouped set_first_occurrences)
  have keys: "first_occurrences (map bucket_label (xs @ [a]))
              = first_occurrences (map bucket_label xs) @ [bucket_label a]"
    using False by (simp add: first_occurrences_snoc)
  have "bucket_label b \<noteq> bucket_label a" if "b \<in> set xs" for b
    using False that by (metis imageI list.set_map)
  then have none: "filter (\<lambda>b. bucket_label b = bucket_label a) xs = []"
    by (simp add: filter_empty_conv)
  have old: "map (\<lambda>k. (k, filter (\<lambda>b. bucket_label b = k) (xs @ [a])))
               (first_occurrences (map bucket_label xs))
             = map (\<lambda>k. (k, filter (\<lambda>b. bucket_label b = k) xs))
               (first_occurrences (map bucket_label xs))"
    using False by (auto simp: set_first_occurrences)
  let ?F = "\<lambda>k. (k, filter (\<lambda>b. bucket_label b = k) (xs @ [a]))"
  have "grouped_by_label (xs @ [a]) = map ?F (first_occurrences (map bucket_label (xs @ [a])))"
    by (simp only: grouped_by_label_def)
  also have "\<dots> = map ?F (first_occurrences (map bucket_label xs @ [bucket_label a]))"
    by simp
  also have "\<dots> = map ?F (first_occurrences (map bucket_label xs)) @ [?F (bucket_label a)]"
    using False by (simp only: first_occurrences_snoc if_False map_append list.map)
  also have "map ?F (first_occurrences (map bucket_label xs)) = grouped_by_label xs"
    by (simp only: old grouped_by_label_def)
  also have "?F (bucket_label a) = (bucket_label a, [a])"
    by (simp add: none)
  finally have "grouped_by_label (xs @ [a]) = grouped_by_label xs @ [(bucket_label a, [a])]" .
  then show ?thesis
    unfolding group_step_def Let_def bucket_label_def [symmetric] get
    by simp
qed

lemma group_step_reserved:
  assumes "bucket_label a \<in> set Object_prototype_keys"
    and "\<forall>b \<in> set xs. bucket_label b \<notin> set Object_prototype_keys"
  shows "group_step (grouped_by_label xs) a = Inl (JsError ''acc[groupName].push is not a function'')"
proof -
  have "bucket_label a \<notin> set (map bucket_label xs)"
    using assms by auto
  then have "js_get (grouped_by_label xs) (bucket_label a) = Inherited"
    using assms(1)
    by (simp add: js_get_def grouped_by_label_def map_of_grouped set_first_occurrences)
  then show ?thesis
    unfolding group_step_def Let_def bucket_label_def [symmetric] by simp
qed

text \<open>
  When no label is the name of a property of \<open>Object.prototype\<close>, the reduction
  builds exactly the grouping of the spec.
\<close>

lemma reduce_groups_grouped:
  assumes "\<forall>a \<in> set acts. bucket_label a \<notin> set Object_prototype_keys"
  shows "reduce_groups [] acts = Inr (grouped_by_label acts)"
  using assms
proof (induction acts rule: rev_induct)
  case Nil
  show ?case by (simp add: grouped_by_label_def first_occurrences_def)
next
  case (snoc a xs)
  then show ?case
    by (simp add: reduce_groups_snoc group_step_grouped)
qed

text \<open>The grouping of the spec is a partition that keeps the order inside each bucket.\<close>

lemma grouped_by_label_partition:
  "distinct (map fst (grouped_by_label acts))"
  "set (map fst (grouped_by_label acts)) = bucket_label ` set acts"
  "(k, bucket) \<in> set (grouped_by_label acts) \<Longrightarrow>
     bucket = filter (\<lambda>a. bucket_label a = k) acts \<and> bucket \<noteq> []"
  "a \<in> set acts \<Longrightarrow>
     (\<exists>!k. k \<in> set (map fst (grouped_by_label acts))
            \<and> a \<in> set (filter (\<lambda>b. bucket_label b = k) acts))"
proof -
  show d: "distinct (map fst (grouped_by_label acts))"
    by (simp add: grouped_by_label_def comp_def distinct_first_occurrences)
  show s: "set (map fst (grouped_by_label acts)) = bucket_label ` set acts"
    by (simp add: grouped_by_label_def comp_def set_first_occurrences)
  show "bucket = filter (\<lambda>a. bucket_label a = k) acts \<and> bucket \<noteq> []"
    if "(k, bucket) \<in> set (grouped_by_label acts)"
    using that by (auto simp: grouped_by_label_def set_first_occurrences filter_empty_conv)
  show "\<exists>!k. k \<in> set (map fst (grouped_by_label acts))
            \<and> a \<in> set (filter (\<lambda>b. bucket_label b = k) acts)" if "a \<in> set acts"
    using that unfolding s by auto
qed

lemma Object_prototype_key_examples:
  "''constructor'' \<in> set Object_prototype_keys" "''Ungrouped'' \<notin> set Object_prototype_keys"
  "''Work'' \<notin> set Object_prototype_keys"
  by (simp_all add: Object_prototype_keys_def)

text \<open>
  Claim C7, at an activity whose group is named \<open>constructor\<close>: \<open>acc[groupName]\<close>
  finds the inherited \<open>Object.prototype.constructor\<close>, no bucket is created, the call of
  \<open>push\<close> throws, and the handler answers with an error envelope instead of a
  listing: the activity is in no bucket.
\<close>

theorem grouping_fails_on_constructor:
  "reduce_groups [] [constructor_activity]
     = Inl (JsError ''acc[groupName].push is not a function'')
   \<and> getDailyActivities_handler example_env (\<lambda>r. Responded 200 (JsonBody [constructor_activity])) None
     = (createErrorResponse ''Error retrieving activities: acc[groupName].push is not a function''
          None,
        [\<lparr>req_url = ''https://api.dailytimetracking.com/activities'', req_method = None,
          req_headers = [(''Content-Type'', ''application/json''), (''Accept'', ''application/json''),
                         (''API-Key'', ''secret'')],
          req_body = None\<rparr>])
   \<and> grouped_by_label [constructor_activity] = [(''constructor'', [constructor_activity])]"
proof -
  have r: "reduce_groups [] [constructor_activity]
     = Inl (JsError ''acc[groupName].push is not a function'')"
    by (simp add: group_step_def js_get_def constructor_activity_def or_default_def
        Object_prototype_keys_def)
  have g: "grouped_by_label [constructor_activity] = [(''constructor'', [constructor_activity])]"
    by (simp add: grouped_by_label_def first_occurrences_def bucket_label_def or_default_def
        constructor_activity_def)
  have h: "getDailyActivities_handler example_env
       (\<lambda>r. Responded 200 (JsonBody [constructor_activity])) None
     = (createErrorResponse ''Error retrieving activities: acc[groupName].push is not a function''
          None,
        [\<lparr>req_url = ''https://api.dailytimetracking.com/activities'', req_method = None,
          req_headers = [(''Content-Type'', ''application/json''), (''Accept'', ''application/json''),
                         (''API-Key'', ''secret'')],
          req_body = None\<rparr>])"
    by (simp add: getDailyActivities_handler_def getDailyClient_def example_env_def
        getActivities_def makeRequest_def buildQueryString_def Let_def r thrown_message_def
        build_request_def new_DailyTimeTrackingClient_def getHeaders_def spread_def no_init_def
        del: reduce_groups.simps)
  from r h g show ?thesis by (simp del: reduce_groups.simps)
qed

section \<open>Sorting the summary\<close>














section \<open>The percentage text\<close>





section \<open>The summary: order and percentages\<close>






section \<open>The sum of the percentages\<close>






section \<open>The empty group\<close>


















end
